theory Spec2Isabelle
  imports Main "HOL-Library.Multiset"
begin

section \<open>Rows and tables (app/db/models.py)\<close>

text \<open>
  Every mapped class of \<^verbatim>\<open>models.py\<close> that the attempt, answer, grading, question and
  test-composition routers touch is a record; a table is the list of its rows. The
  timestamp columns (\<^verbatim>\<open>created_at\<close>, \<^verbatim>\<open>finished_at\<close>, \<^verbatim>\<open>updated_at\<close>) are filled by the
  server and read by no router, so they are left out. Python integers are \<open>int\<close>.
\<close>

record Course =
  Course_id :: int
  Course_name :: string
  Course_description :: string
  Course_teacher_id :: int
  Course_is_deleted :: bool

record Question =
  Question_id :: int
  Question_author_id :: int
  Question_is_deleted :: bool

record QuestionVersion =
  QuestionVersion_question_id :: int
  QuestionVersion_version :: int
  QuestionVersion_title :: string
  QuestionVersion_body :: string
  QuestionVersion_options :: "string list"
  QuestionVersion_correct_index :: int

record Test =
  Test_id :: int
  Test_course_id :: int
  Test_name :: string
  Test_author_id :: int
  Test_is_active :: bool
  Test_is_deleted :: bool

record TestQuestion =
  TestQuestion_test_id :: int
  TestQuestion_question_id :: int
  TestQuestion_position :: int

record Attempt =
  Attempt_id :: int
  Attempt_test_id :: int
  Attempt_user_id :: int
  Attempt_status :: string

record AttemptQuestion =
  AttemptQuestion_attempt_id :: int
  AttemptQuestion_question_id :: int
  AttemptQuestion_question_version :: int
  AttemptQuestion_position :: int

record Answer =
  Answer_id :: int
  Answer_attempt_id :: int
  Answer_question_id :: int
  Answer_question_version :: int
  Answer_answer_index :: int

record database =
  courses :: "Course list"
  questions :: "Question list"
  question_versions :: "QuestionVersion list"
  tests :: "Test list"
  test_questions :: "TestQuestion list"
  attempts :: "Attempt list"
  attempt_questions :: "AttemptQuestion list"
  answers :: "Answer list"

section \<open>Errors, the session and request handlers\<close>

text \<open>
  \<^verbatim>\<open>http_error(status_code, message, details)\<close> raises
  \<^verbatim>\<open>HTTPException(status_code, detail={"message": message, "details": details})\<close>; every
  \<^verbatim>\<open>details\<close> dictionary in the routers has one key, so it is an optional pair.
  \<^verbatim>\<open>MultipleResultsFound\<close> is what \<^verbatim>\<open>scalar_one_or_none()\<close> raises on two or more rows,
  \<^verbatim>\<open>DBAPIError\<close> stands for SQLAlchemy's \<^verbatim>\<open>IntegrityError\<close> and \<^verbatim>\<open>DataError\<close> (a statement
  the store refuses).
\<close>

datatype error =
  HTTPException int string "(string \<times> string) option"
  | MultipleResultsFound
  | DBAPIError

text \<open>
  \<^verbatim>\<open>get_session\<close> opens one \<^verbatim>\<open>AsyncSession\<close> per request and closes it when the request
  ends. The session carries the committed database and the transaction's working copy:
  statements read and write the working copy, \<^verbatim>\<open>commit\<close> publishes it, \<^verbatim>\<open>rollback\<close> and
  closing the session drop it. A handler runs on a session and returns its result or
  the exception it raised, with the session as it stands at that moment.
\<close>

record session =
  committed :: database
  working :: database

type_synonym 'a handler = "session \<Rightarrow> (error + 'a) \<times> session"

definition ok :: "'a \<Rightarrow> 'a handler" where
  "ok x s = (Inr x, s)"

definition raise :: "error \<Rightarrow> 'a handler" where
  "raise e s = (Inl e, s)"

definition andthen :: "'a handler \<Rightarrow> ('a \<Rightarrow> 'b handler) \<Rightarrow> 'b handler" where
  "andthen m f s = (case m s of (Inl e, s') \<Rightarrow> (Inl e, s') | (Inr x, s') \<Rightarrow> f x s')"

definition http_error :: "int \<Rightarrow> string \<Rightarrow> (string \<times> string) option \<Rightarrow> 'a handler" where
  "http_error status_code message details = raise (HTTPException status_code message details)"

definition query :: "(database \<Rightarrow> 'a) \<Rightarrow> 'a handler" where
  "query f s = (Inr (f (working s)), s)"

definition scalar_one_or_none :: "(database \<Rightarrow> 'a list) \<Rightarrow> 'a option handler" where
  "scalar_one_or_none rows s =
     (case rows (working s) of
        [] \<Rightarrow> (Inr None, s)
      | [r] \<Rightarrow> (Inr (Some r), s)
      | _ \<Rightarrow> (Inl MultipleResultsFound, s))"

definition first :: "(database \<Rightarrow> 'a list) \<Rightarrow> 'a option handler" where
  "first rows s = (case rows (working s) of [] \<Rightarrow> (Inr None, s) | r # _ \<Rightarrow> (Inr (Some r), s))"

definition commit :: "unit handler" where
  "commit s = (Inr (), s\<lparr>committed := working s\<rparr>)"

definition rollback :: "unit handler" where
  "rollback s = (Inr (), s\<lparr>working := committed s\<rparr>)"

definition run_request :: "'a handler \<Rightarrow> database \<Rightarrow> (error + 'a) \<times> database" where
  "run_request h db = (case h \<lparr>committed = db, working = db\<rparr> of (r, s) \<Rightarrow> (r, committed s))"

text \<open>The session \<^verbatim>\<open>SessionLocal()\<close> opens: nothing pending.\<close>

definition fresh :: "database \<Rightarrow> session" where
  "fresh db = \<lparr>committed = db, working = db\<rparr>"

text \<open>
  \<^verbatim>\<open>get_current_user\<close> hands every router the validated identity: the user's id and the
  set of permissions of the access token.
\<close>

record current =
  user_id :: int
  permissions :: "string set"

definition has_perm :: "current \<Rightarrow> string \<Rightarrow> bool" where
  "has_perm cur perm = (perm \<in> permissions cur)"

section \<open>What the store enforces (the constraints of app/db/models.py)\<close>

text \<open>
  An \<^verbatim>\<open>Integer\<close> column holds a 32-bit value. The store refuses (\<^verbatim>\<open>DBAPIError\<close>) every
  statement after which the written table would break one of its declared constraints:
  primary key, \<^verbatim>\<open>UniqueConstraint\<close>, \<^verbatim>\<open>CheckConstraint\<close>, foreign key or column range. None
  of the constraints is deferrable, so each is checked statement by statement. The
  \<^verbatim>\<open>users\<close> table is the identity provider's and is not modelled, so the foreign keys
  into it are not part of the predicates.
\<close>

definition int4 :: "int \<Rightarrow> bool" where
  "int4 x = (- 2147483648 \<le> x \<and> x \<le> 2147483647)"

definition qv_key :: "QuestionVersion \<Rightarrow> int \<times> int" where
  "qv_key v = (QuestionVersion_question_id v, QuestionVersion_version v)"

text \<open>
  \<^verbatim>\<open>array_length(options, 1)\<close> is NULL for an empty array, and a check whose value is NULL
  passes: the two checks on \<^verbatim>\<open>options\<close> bind only a non-empty array.
\<close>

definition QuestionVersion_constraints :: "database \<Rightarrow> bool" where
  "QuestionVersion_constraints db =
     (distinct (map qv_key (question_versions db))
      \<and> (\<forall>v \<in> set (question_versions db).
            1 \<le> QuestionVersion_version v \<and> int4 (QuestionVersion_version v)
            \<and> 0 \<le> QuestionVersion_correct_index v \<and> int4 (QuestionVersion_correct_index v)
            \<and> (QuestionVersion_options v = []
                 \<or> (2 \<le> length (QuestionVersion_options v)
                     \<and> QuestionVersion_correct_index v < int (length (QuestionVersion_options v))))
            \<and> QuestionVersion_question_id v \<in> Question_id ` set (questions db)))"

definition TestQuestion_constraints :: "database \<Rightarrow> bool" where
  "TestQuestion_constraints db =
     (distinct (map (\<lambda>r. (TestQuestion_test_id r, TestQuestion_question_id r)) (test_questions db))
      \<and> distinct (map (\<lambda>r. (TestQuestion_test_id r, TestQuestion_position r)) (test_questions db))
      \<and> (\<forall>r \<in> set (test_questions db).
            0 \<le> TestQuestion_position r \<and> int4 (TestQuestion_position r)
            \<and> TestQuestion_test_id r \<in> Test_id ` set (tests db)
            \<and> TestQuestion_question_id r \<in> Question_id ` set (questions db)))"

definition Attempt_constraints :: "database \<Rightarrow> bool" where
  "Attempt_constraints db =
     (distinct (map Attempt_id (attempts db))
      \<and> distinct (map (\<lambda>a. (Attempt_test_id a, Attempt_user_id a)) (attempts db))
      \<and> (\<forall>a \<in> set (attempts db).
            (Attempt_status a = ''in_progress'' \<or> Attempt_status a = ''finished'')
            \<and> Attempt_test_id a \<in> Test_id ` set (tests db)))"

definition AttemptQuestion_constraints :: "database \<Rightarrow> bool" where
  "AttemptQuestion_constraints db =
     (distinct (map (\<lambda>r. (AttemptQuestion_attempt_id r, AttemptQuestion_question_id r))
                  (attempt_questions db))
      \<and> distinct (map (\<lambda>r. (AttemptQuestion_attempt_id r, AttemptQuestion_position r))
                    (attempt_questions db))
      \<and> (\<forall>r \<in> set (attempt_questions db).
            0 \<le> AttemptQuestion_position r \<and> int4 (AttemptQuestion_position r)
            \<and> int4 (AttemptQuestion_question_version r)
            \<and> AttemptQuestion_attempt_id r \<in> Attempt_id ` set (attempts db)
            \<and> (AttemptQuestion_question_id r, AttemptQuestion_question_version r)
                 \<in> qv_key ` set (question_versions db)))"

definition Answer_constraints :: "database \<Rightarrow> bool" where
  "Answer_constraints db =
     (distinct (map Answer_id (answers db))
      \<and> distinct (map (\<lambda>a. (Answer_attempt_id a, Answer_question_id a)) (answers db))
      \<and> (\<forall>a \<in> set (answers db).
            - 1 \<le> Answer_answer_index a \<and> int4 (Answer_answer_index a)
            \<and> int4 (Answer_question_version a)
            \<and> Answer_attempt_id a \<in> Attempt_id ` set (attempts db)
            \<and> (Answer_question_id a, Answer_question_version a)
                 \<in> qv_key ` set (question_versions db)))"

text \<open>
  A statement (an INSERT, UPDATE or DELETE, sent by a flush or by \<^verbatim>\<open>session.execute\<close>)
  changes the working copy when the store accepts it and raises otherwise.
\<close>

definition statement :: "(database \<Rightarrow> database) \<Rightarrow> (database \<Rightarrow> bool) \<Rightarrow> unit handler" where
  "statement f accepted s =
     (if accepted (f (working s)) then (Inr (), s\<lparr>working := f (working s)\<rparr>)
      else (Inl DBAPIError, s))"

text \<open>
  An autoincrement key (\<^verbatim>\<open>attempts.id\<close>, \<^verbatim>\<open>answers.id\<close>): the sequence hands out an id
  above every id of the table.
\<close>

definition next_id :: "int list \<Rightarrow> int" where
  "next_id ids = fold max ids 0 + 1"

text \<open>SQL \<^verbatim>\<open>max\<close> over a column: NULL (\<^verbatim>\<open>None\<close>) when no row is selected.\<close>

fun sql_max :: "int list \<Rightarrow> int option" where
  "sql_max [] = None"
| "sql_max (x # xs) = Some (fold max xs x)"

definition try_except :: "'a handler \<Rightarrow> (error \<Rightarrow> 'a handler) \<Rightarrow> 'a handler" where
  "try_except body except s = (case body s of (Inl e, s') \<Rightarrow> except e s' | (Inr x, s') \<Rightarrow> (Inr x, s'))"

section \<open>Python strings: split, strip, int and str\<close>

text \<open>
  A \<open>string\<close> is the list of the code points of a Python \<^verbatim>\<open>str\<close> below 256.
  \<^verbatim>\<open>str.isspace\<close> holds there for TAB, LF, VT, FF, CR, FS, GS, RS, US, SPACE, NEL and NBSP.
\<close>

definition py_isspace :: "char \<Rightarrow> bool" where
  "py_isspace c = ((of_char c :: nat) \<in> {9, 10, 11, 12, 13, 28, 29, 30, 31, 32, 133, 160})"

definition py_strip :: "string \<Rightarrow> string" where
  "py_strip s = rev (dropWhile py_isspace (rev (dropWhile py_isspace s)))"

fun py_split_acc :: "char \<Rightarrow> string \<Rightarrow> string \<Rightarrow> string list" where
  "py_split_acc sep acc [] = [rev acc]"
| "py_split_acc sep acc (c # cs) =
     (if c = sep then rev acc # py_split_acc sep [] cs else py_split_acc sep (c # acc) cs)"

definition py_split :: "char \<Rightarrow> string \<Rightarrow> string list" where
  "py_split sep s = py_split_acc sep [] s"

definition is_digit :: "char \<Rightarrow> bool" where
  "is_digit c = (48 \<le> (of_char c :: nat) \<and> (of_char c :: nat) \<le> 57)"

definition digit_val :: "char \<Rightarrow> nat" where
  "digit_val c = of_char c - 48"

text \<open>
  \<^verbatim>\<open>int(p)\<close> on a stripped string: an optional sign, then decimal digits, single
  underscores allowed between two digits; anything else raises \<^verbatim>\<open>ValueError\<close> (\<open>None\<close>).
  The interpreter's cap on the number of digits (4300 by default) is left out.
\<close>

fun py_digits :: "nat \<Rightarrow> string \<Rightarrow> nat option" where
  "py_digits acc [] = Some acc"
| "py_digits acc [c] = (if is_digit c then Some (10 * acc + digit_val c) else None)"
| "py_digits acc (c # d # ds) =
     (if is_digit c then py_digits (10 * acc + digit_val c) (d # ds)
      else if c = CHR ''_'' \<and> is_digit d then py_digits (10 * acc + digit_val d) ds
      else None)"

definition py_unsigned :: "string \<Rightarrow> nat option" where
  "py_unsigned s = (case s of [] \<Rightarrow> None
                    | d # ds \<Rightarrow> if is_digit d then py_digits (digit_val d) ds else None)"

definition py_int :: "string \<Rightarrow> int option" where
  "py_int s =
     (case s of
        [] \<Rightarrow> None
      | c # cs \<Rightarrow>
          if c = CHR ''-'' then map_option (\<lambda>n. - int n) (py_unsigned cs)
          else if c = CHR ''+'' then map_option int (py_unsigned cs)
          else map_option int (py_unsigned s))"

fun str_nat :: "nat \<Rightarrow> string" where
  "str_nat n = (if n < 10 then [''0123456789'' ! n]
                else str_nat (n div 10) @ [''0123456789'' ! (n mod 10)])"

definition str_int :: "int \<Rightarrow> string" where
  "str_int i = (if i < 0 then CHR ''-'' # str_nat (nat (- i)) else str_nat (nat i))"

section \<open>Grading (app/api/teacher_tests.py)\<close>

definition get_test_course :: "int \<Rightarrow> (Test \<times> Course) handler" where
  "get_test_course test_id =
     andthen (first (\<lambda>db. filter (\<lambda>(t, c). Course_id c = Test_course_id t \<and> Test_id t = test_id
                                     \<and> \<not> Test_is_deleted t \<and> \<not> Course_is_deleted c)
                             (List.product (tests db) (courses db))))
       (\<lambda>row. case row of None \<Rightarrow> http_error 404 ''Not found'' None | Some r \<Rightarrow> ok r)"

definition ensure_teacher_or_perm :: "Course \<Rightarrow> current \<Rightarrow> string \<Rightarrow> unit handler" where
  "ensure_teacher_or_perm course cur perm =
     (if Course_teacher_id course = user_id cur then ok ()
      else if \<not> has_perm cur perm then http_error 403 ''Forbidden'' (Some (''required_permission'', perm))
      else ok ())"

text \<open>
  \<^verbatim>\<open>int(round(100 * correct / total))\<close>: Python's \<^verbatim>\<open>round\<close> takes a float to the nearest
  integer and a tie to the even one. The quotient is taken here as the exact rational
  \<open>n / d\<close>; the float quotient rounds the same way as long as \<open>d\<close> stays far below
  \<open>2 ^ 53 / 200\<close>, which a count of answers of one attempt does.
\<close>

definition round_half_even :: "int \<Rightarrow> int \<Rightarrow> int" where
  "round_half_even n d =
     (let q = n div d; r = n mod d
      in if 2 * r < d then q else if d < 2 * r then q + 1 else if even q then q else q + 1)"

record grade =
  grade_test_id :: int
  grade_user_id :: int
  grade_attempt_id :: int
  grade_correct :: int
  grade_total :: int
  grade_percent :: int

definition count_answers :: "int \<Rightarrow> database \<Rightarrow> int" where
  "count_answers attempt_id db =
     int (length (filter (\<lambda>a. Answer_attempt_id a = attempt_id) (answers db)))"

definition count_correct :: "int \<Rightarrow> database \<Rightarrow> int" where
  "count_correct attempt_id db =
     int (length (filter (\<lambda>(a, v).
            (QuestionVersion_question_id v = Answer_question_id a
               \<and> QuestionVersion_version v = Answer_question_version a)
            \<and> Answer_attempt_id a = attempt_id
            \<and> Answer_answer_index a \<noteq> - 1
            \<and> Answer_answer_index a = QuestionVersion_correct_index v)
          (List.product (answers db) (question_versions db))))"

definition test_user_grade :: "int \<Rightarrow> int \<Rightarrow> current \<Rightarrow> grade handler" where
  "test_user_grade test_id uid cur =
     andthen (get_test_course test_id) (\<lambda>(test, course).
     andthen (ensure_teacher_or_perm course cur ''test:answer:read'') (\<lambda>_.
     andthen (scalar_one_or_none (\<lambda>db. filter (\<lambda>a. Attempt_test_id a = Test_id test
                                                  \<and> Attempt_user_id a = uid) (attempts db)))
       (\<lambda>found. case found of
          None \<Rightarrow> http_error 404 ''Not found'' (Some (''message'', ''User has no attempt for this test''))
        | Some attempt \<Rightarrow>
            andthen (query (count_answers (Attempt_id attempt))) (\<lambda>total.
              if total = 0 then
                ok \<lparr>grade_test_id = Test_id test, grade_user_id = uid,
                    grade_attempt_id = Attempt_id attempt,
                    grade_correct = 0, grade_total = 0, grade_percent = 0\<rparr>
              else
                andthen (query (count_correct (Attempt_id attempt))) (\<lambda>correct.
                  ok \<lparr>grade_test_id = Test_id test, grade_user_id = uid,
                      grade_attempt_id = Attempt_id attempt,
                      grade_correct = correct, grade_total = total,
                      grade_percent = round_half_even (100 * correct) total\<rparr>)))))"

section \<open>Attempts (app/api/attempts.py)\<close>

definition max_version :: "int \<Rightarrow> database \<Rightarrow> int option" where
  "max_version question_id db =
     sql_max (map QuestionVersion_version
                (filter (\<lambda>v. QuestionVersion_question_id v = question_id) (question_versions db)))"

definition add_Attempt :: "int \<Rightarrow> int \<Rightarrow> string \<Rightarrow> int handler" where
  "add_Attempt test_id uid status =
     andthen (query (\<lambda>db. next_id (map Attempt_id (attempts db)))) (\<lambda>new_id.
     andthen (statement
                (\<lambda>db. db\<lparr>attempts := attempts db @
                     [\<lparr>Attempt_id = new_id, Attempt_test_id = test_id, Attempt_user_id = uid,
                       Attempt_status = status\<rparr>]\<rparr>)
                Attempt_constraints) (\<lambda>_.
     ok new_id))"

definition add_AttemptQuestion :: "AttemptQuestion \<Rightarrow> unit handler" where
  "add_AttemptQuestion aq =
     statement (\<lambda>db. db\<lparr>attempt_questions := attempt_questions db @ [aq]\<rparr>)
       AttemptQuestion_constraints"

definition add_Answer :: "int \<Rightarrow> int \<Rightarrow> int \<Rightarrow> int \<Rightarrow> unit handler" where
  "add_Answer attempt_id question_id question_version answer_index =
     statement
       (\<lambda>db. db\<lparr>answers := answers db @
            [\<lparr>Answer_id = next_id (map Answer_id (answers db)), Answer_attempt_id = attempt_id,
              Answer_question_id = question_id, Answer_question_version = question_version,
              Answer_answer_index = answer_index\<rparr>]\<rparr>)
       Answer_constraints"

text \<open>
  The loop of step 6 and 7 over \<^verbatim>\<open>tq_rows\<close>. The rows added in one round are flushed by
  the next round's query (autoflush) or by the final commit.
\<close>

fun pin_questions :: "int \<Rightarrow> (int \<times> int) list \<Rightarrow> unit handler" where
  "pin_questions attempt_id [] = ok ()"
| "pin_questions attempt_id ((question_id, position) # tq_rows) =
     andthen (query (max_version question_id)) (\<lambda>last_ver.
       case last_ver of
         None \<Rightarrow> http_error 400 ''Bad Request''
                   (Some (''message'', ''Question '' @ str_int question_id @ '' has no versions''))
       | Some ver \<Rightarrow>
           andthen (add_AttemptQuestion
                      \<lparr>AttemptQuestion_attempt_id = attempt_id,
                       AttemptQuestion_question_id = question_id,
                       AttemptQuestion_question_version = ver,
                       AttemptQuestion_position = position\<rparr>) (\<lambda>_.
           andthen (add_Answer attempt_id question_id ver (- 1)) (\<lambda>_.
           pin_questions attempt_id tq_rows)))"

text \<open>
  Step 5, \<^verbatim>\<open>ORDER BY position\<close>: positions of one test are distinct
  (\<^verbatim>\<open>uq_test_questions_position\<close>), so the order of the rows is determined.
\<close>

definition ordered_test_questions :: "int \<Rightarrow> database \<Rightarrow> (int \<times> int) list" where
  "ordered_test_questions test_id db =
     map (\<lambda>r. (TestQuestion_question_id r, TestQuestion_position r))
       (sort_key TestQuestion_position
          (filter (\<lambda>r. TestQuestion_test_id r = test_id) (test_questions db)))"

definition attempt_create :: "int \<Rightarrow> current \<Rightarrow> int handler" where
  "attempt_create test_id cur =
     andthen (scalar_one_or_none
                (\<lambda>db. filter (\<lambda>t. Test_id t = test_id \<and> \<not> Test_is_deleted t) (tests db)))
       (\<lambda>found. case found of
          None \<Rightarrow> http_error 404 ''Not found'' None
        | Some test \<Rightarrow>
            if \<not> Test_is_active test then
              http_error 400 ''Bad Request'' (Some (''message'', ''Test is not active''))
            else
              andthen (scalar_one_or_none
                         (\<lambda>db. filter (\<lambda>a. Attempt_test_id a = test_id
                                             \<and> Attempt_user_id a = user_id cur) (attempts db)))
                (\<lambda>existing. case existing of
                   Some e \<Rightarrow> ok (Attempt_id e)
                 | None \<Rightarrow>
                     andthen (add_Attempt test_id (user_id cur) ''in_progress'') (\<lambda>attempt_id.
                     andthen (query (ordered_test_questions test_id)) (\<lambda>tq_rows.
                       if tq_rows = [] then
                         http_error 400 ''Bad Request'' (Some (''message'', ''Test has no questions''))
                       else
                         andthen (pin_questions attempt_id tq_rows) (\<lambda>_.
                         andthen commit (\<lambda>_.
                         ok attempt_id))))))"

section \<open>Answers (app/api/answers.py)\<close>

definition get_attempt_or_404 :: "int \<Rightarrow> Attempt handler" where
  "get_attempt_or_404 attempt_id =
     andthen (scalar_one_or_none (\<lambda>db. filter (\<lambda>a. Attempt_id a = attempt_id) (attempts db)))
       (\<lambda>found. case found of None \<Rightarrow> http_error 404 ''Not found'' None | Some a \<Rightarrow> ok a)"

text \<open>
  \<^verbatim>\<open>ans.answer_index = index\<close> followed by \<^verbatim>\<open>commit\<close>: the flush sends one UPDATE of the
  row with the primary key of \<^verbatim>\<open>ans\<close>.
\<close>

definition set_answer_index :: "int \<Rightarrow> int \<Rightarrow> unit handler" where
  "set_answer_index answer_id index =
     statement
       (\<lambda>db. db\<lparr>answers := map (\<lambda>a. if Answer_id a = answer_id
                                      then a\<lparr>Answer_answer_index := index\<rparr> else a) (answers db)\<rparr>)
       Answer_constraints"

definition answer_update :: "int \<Rightarrow> int \<Rightarrow> current \<Rightarrow> unit handler" where
  "answer_update answer_id index cur =
     (if index < 0 then
        http_error 400 ''Bad Request''
          (Some (''message'', ''index must be >= 0 (use answer_delete to reset to -1)''))
      else
        andthen (scalar_one_or_none (\<lambda>db. filter (\<lambda>a. Answer_id a = answer_id) (answers db)))
          (\<lambda>found. case found of
             None \<Rightarrow> http_error 404 ''Not found'' None
           | Some ans \<Rightarrow>
               andthen (get_attempt_or_404 (Answer_attempt_id ans)) (\<lambda>attempt.
                 if Attempt_user_id attempt \<noteq> user_id cur then http_error 403 ''Forbidden'' None
                 else if Attempt_status attempt \<noteq> ''in_progress'' then
                   http_error 400 ''Bad Request'' (Some (''message'', ''Attempt already finished''))
                 else
                   andthen (set_answer_index (Answer_id ans) index) (\<lambda>_.
                   andthen commit (\<lambda>_.
                   ok ())))))"

definition answer_delete :: "int \<Rightarrow> current \<Rightarrow> unit handler" where
  "answer_delete answer_id cur =
     andthen (scalar_one_or_none (\<lambda>db. filter (\<lambda>a. Answer_id a = answer_id) (answers db)))
       (\<lambda>found. case found of
          None \<Rightarrow> http_error 404 ''Not found'' None
        | Some ans \<Rightarrow>
            andthen (get_attempt_or_404 (Answer_attempt_id ans)) (\<lambda>attempt.
              if Attempt_user_id attempt \<noteq> user_id cur then http_error 403 ''Forbidden'' None
              else if Attempt_status attempt \<noteq> ''in_progress'' then
                http_error 400 ''Bad Request'' (Some (''message'', ''Attempt already finished''))
              else
                andthen (set_answer_index (Answer_id ans) (- 1)) (\<lambda>_.
                andthen commit (\<lambda>_.
                ok ()))))"

section \<open>Test composition (app/api/test_questions.py)\<close>

definition get_test_or_404 :: "int \<Rightarrow> Test handler" where
  "get_test_or_404 test_id =
     andthen (scalar_one_or_none
                (\<lambda>db. filter (\<lambda>t. Test_id t = test_id \<and> \<not> Test_is_deleted t) (tests db)))
       (\<lambda>found. case found of None \<Rightarrow> http_error 404 ''Not found'' None | Some t \<Rightarrow> ok t)"

definition get_course_or_404 :: "int \<Rightarrow> Course handler" where
  "get_course_or_404 course_id =
     andthen (scalar_one_or_none
                (\<lambda>db. filter (\<lambda>c. Course_id c = course_id \<and> \<not> Course_is_deleted c) (courses db)))
       (\<lambda>found. case found of None \<Rightarrow> http_error 404 ''Not found'' None | Some c \<Rightarrow> ok c)"

definition count_attempts :: "int \<Rightarrow> database \<Rightarrow> int" where
  "count_attempts test_id db =
     int (length (filter (\<lambda>a. Attempt_test_id a = test_id) (attempts db)))"

definition ensure_can_edit_test :: "current \<Rightarrow> Test \<Rightarrow> unit handler" where
  "ensure_can_edit_test cur test =
     andthen (get_course_or_404 (Test_course_id test)) (\<lambda>course.
     andthen (query (count_attempts (Test_id test))) (\<lambda>attempts_cnt.
       if attempts_cnt > 0 then
         http_error 400 ''Bad Request''
           (Some (''message'', ''Test has attempts, modification forbidden''))
       else if Course_teacher_id course = user_id cur then ok ()
       else
         http_error 403 ''Forbidden''
           (Some (''message'', ''Not allowed by default; need permission''))))"

definition parse_csv_ids :: "string \<Rightarrow> int list handler" where
  "parse_csv_ids csv =
     (let parts = filter (\<lambda>p. p \<noteq> []) (map py_strip (py_split CHR '','' csv))
      in if list_all (\<lambda>p. py_int p \<noteq> None) parts then ok (map (\<lambda>p. the (py_int p)) parts)
         else http_error 400 ''Bad Request'' (Some (''message'', ''Invalid CSV of ids'')))"

definition add_TestQuestion :: "TestQuestion \<Rightarrow> unit handler" where
  "add_TestQuestion tq =
     statement (\<lambda>db. db\<lparr>test_questions := test_questions db @ [tq]\<rparr>) TestQuestion_constraints"

definition test_question_add :: "int \<Rightarrow> int \<Rightarrow> current \<Rightarrow> int handler" where
  "test_question_add test_id question_id cur =
     andthen (get_test_or_404 test_id) (\<lambda>test.
     andthen (ensure_can_edit_test cur test) (\<lambda>_.
     andthen (get_course_or_404 (Test_course_id test)) (\<lambda>course.
       if Course_teacher_id course \<noteq> user_id cur \<and> \<not> has_perm cur ''test:quest:add'' then
         http_error 403 ''Forbidden'' (Some (''required_permission'', ''test:quest:add''))
       else
         andthen (scalar_one_or_none
                    (\<lambda>db. filter (\<lambda>q. Question_id q = question_id \<and> \<not> Question_is_deleted q)
                            (questions db)))
           (\<lambda>q. case q of
              None \<Rightarrow> http_error 404 ''Not found'' (Some (''message'', ''Question not found''))
            | Some _ \<Rightarrow>
                andthen (query (\<lambda>db. sql_max (map TestQuestion_position
                                   (filter (\<lambda>r. TestQuestion_test_id r = test_id)
                                      (test_questions db))))) (\<lambda>max_pos.
                  let next_pos = (case max_pos of Some m \<Rightarrow> m + 1 | None \<Rightarrow> 0)
                  in andthen (try_except
                                (andthen (add_TestQuestion
                                            \<lparr>TestQuestion_test_id = test_id,
                                             TestQuestion_question_id = question_id,
                                             TestQuestion_position = next_pos\<rparr>) (\<lambda>_. commit))
                                (\<lambda>_. andthen rollback (\<lambda>_.
                                   http_error 400 ''Bad Request''
                                     (Some (''message'',
                                        ''Question already in test or position conflict'')))))
                       (\<lambda>_. ok next_pos))))))"

definition delete_TestQuestion :: "TestQuestion \<Rightarrow> unit handler" where
  "delete_TestQuestion tq =
     statement
       (\<lambda>db. db\<lparr>test_questions :=
                  filter (\<lambda>r. \<not> (TestQuestion_test_id r = TestQuestion_test_id tq
                                 \<and> TestQuestion_question_id r = TestQuestion_question_id tq))
                    (test_questions db)\<rparr>)
       (\<lambda>_. True)"

definition test_question_del :: "int \<Rightarrow> int \<Rightarrow> current \<Rightarrow> unit handler" where
  "test_question_del test_id question_id cur =
     andthen (get_test_or_404 test_id) (\<lambda>test.
     andthen (ensure_can_edit_test cur test) (\<lambda>_.
     andthen (get_course_or_404 (Test_course_id test)) (\<lambda>course.
       if Course_teacher_id course \<noteq> user_id cur \<and> \<not> has_perm cur ''test:quest:del'' then
         http_error 403 ''Forbidden'' (Some (''required_permission'', ''test:quest:del''))
       else
         andthen (scalar_one_or_none
                    (\<lambda>db. filter (\<lambda>r. TestQuestion_test_id r = test_id
                                        \<and> TestQuestion_question_id r = question_id)
                            (test_questions db)))
           (\<lambda>tq. case tq of
              None \<Rightarrow> http_error 404 ''Not found'' None
            | Some tq \<Rightarrow>
                andthen (delete_TestQuestion tq) (\<lambda>_.
                andthen commit (\<lambda>_.
                ok ()))))))"

definition update_position :: "int \<Rightarrow> int \<Rightarrow> int \<Rightarrow> unit handler" where
  "update_position test_id qid pos =
     statement
       (\<lambda>db. db\<lparr>test_questions :=
                  map (\<lambda>r. if TestQuestion_test_id r = test_id \<and> TestQuestion_question_id r = qid
                           then r\<lparr>TestQuestion_position := pos\<rparr> else r)
                    (test_questions db)\<rparr>)
       TestQuestion_constraints"

text \<open>The loop \<^verbatim>\<open>for pos, qid in enumerate(new_order)\<close>, one UPDATE a round.\<close>

fun update_positions :: "int \<Rightarrow> (int \<times> int) list \<Rightarrow> unit handler" where
  "update_positions test_id [] = ok ()"
| "update_positions test_id ((pos, qid) # rest) =
     andthen (update_position test_id qid pos) (\<lambda>_. update_positions test_id rest)"

definition enumerate_from0 :: "int list \<Rightarrow> (int \<times> int) list" where
  "enumerate_from0 xs = zip (map int [0 ..< length xs]) xs"

definition test_question_order :: "int \<Rightarrow> string \<Rightarrow> current \<Rightarrow> unit handler" where
  "test_question_order test_id questionIdsCsv cur =
     andthen (get_test_or_404 test_id) (\<lambda>test.
     andthen (ensure_can_edit_test cur test) (\<lambda>_.
     andthen (get_course_or_404 (Test_course_id test)) (\<lambda>course.
       if Course_teacher_id course \<noteq> user_id cur \<and> \<not> has_perm cur ''test:quest:update'' then
         http_error 403 ''Forbidden'' (Some (''required_permission'', ''test:quest:update''))
       else
         andthen (parse_csv_ids questionIdsCsv) (\<lambda>new_order.
         andthen (query (\<lambda>db. map TestQuestion_question_id
                            (filter (\<lambda>r. TestQuestion_test_id r = test_id) (test_questions db))))
           (\<lambda>current_ids.
              if sort current_ids \<noteq> sort new_order then
                http_error 400 ''Bad Request''
                  (Some (''message'',
                     ''Order list must contain exactly the same question ids as in test''))
              else
                andthen (update_positions test_id (enumerate_from0 new_order)) (\<lambda>_.
                andthen commit (\<lambda>_.
                ok ())))))))"

section \<open>Question versions (app/api/questions.py)\<close>

definition add_QuestionVersion :: "QuestionVersion \<Rightarrow> unit handler" where
  "add_QuestionVersion v =
     statement (\<lambda>db. db\<lparr>question_versions := question_versions db @ [v]\<rparr>)
       QuestionVersion_constraints"

definition question_update ::
  "int \<Rightarrow> string \<Rightarrow> string \<Rightarrow> string \<Rightarrow> int \<Rightarrow> current \<Rightarrow> (int \<times> int) handler" where
  "question_update qid title body optionsCsv correctIndex cur =
     andthen (scalar_one_or_none
                (\<lambda>db. filter (\<lambda>q. Question_id q = qid \<and> \<not> Question_is_deleted q) (questions db)))
       (\<lambda>found. case found of
          None \<Rightarrow> http_error 404 ''Not found'' None
        | Some q \<Rightarrow>
            if Question_author_id q \<noteq> user_id cur \<and> \<not> has_perm cur ''quest:update'' then
              http_error 403 ''Forbidden'' (Some (''required_permission'', ''quest:update''))
            else
              let options = filter (\<lambda>p. p \<noteq> []) (map py_strip (py_split CHR '','' optionsCsv))
              in if length options < 2 then
                   http_error 400 ''Bad Request'' (Some (''message'', ''Need at least 2 options''))
                 else if correctIndex < 0 \<or> correctIndex \<ge> int (length options) then
                   http_error 400 ''Bad Request'' (Some (''message'', ''correctIndex out of range''))
                 else
                   andthen (query (max_version qid)) (\<lambda>current_max.
                     let next_version = (case current_max of None \<Rightarrow> 0 | Some m \<Rightarrow> m) + 1
                     in andthen (add_QuestionVersion
                                   \<lparr>QuestionVersion_question_id = qid,
                                    QuestionVersion_version = next_version,
                                    QuestionVersion_title = title,
                                    QuestionVersion_body = body,
                                    QuestionVersion_options = options,
                                    QuestionVersion_correct_index = correctIndex\<rparr>) (\<lambda>_.
                        andthen commit (\<lambda>_.
                        ok (qid, next_version)))))"

section \<open>The specification's reading of a grade\<close>

text \<open>
  The pinned version of an answer is the row of \<^verbatim>\<open>question_versions\<close> with the answer's
  \<^verbatim>\<open>(question_id, question_version)\<close>; \<open>spec_total\<close>, \<open>spec_correct\<close> and
  \<open>spec_grade_percent\<close> are the three numbers as the specification words them.
\<close>

definition pinned_correct_index :: "database \<Rightarrow> Answer \<Rightarrow> int option" where
  "pinned_correct_index db a =
     map_option QuestionVersion_correct_index
       (find (\<lambda>v. qv_key v = (Answer_question_id a, Answer_question_version a)) (question_versions db))"

definition attempt_answers :: "database \<Rightarrow> int \<Rightarrow> Answer list" where
  "attempt_answers db attempt_id = filter (\<lambda>a. Answer_attempt_id a = attempt_id) (answers db)"

definition spec_total :: "database \<Rightarrow> int \<Rightarrow> int" where
  "spec_total db attempt_id = int (length (attempt_answers db attempt_id))"

definition spec_correct :: "database \<Rightarrow> int \<Rightarrow> int" where
  "spec_correct db attempt_id =
     int (length (filter (\<lambda>a. Answer_answer_index a \<noteq> - 1
                              \<and> pinned_correct_index db a = Some (Answer_answer_index a))
                    (attempt_answers db attempt_id)))"

definition spec_grade_percent :: "int \<Rightarrow> int \<Rightarrow> int" where
  "spec_grade_percent c n = (if n = 0 then 0 else round_half_even (100 * c) n)"

section \<open>The specification's reading of a snapshot\<close>

text \<open>
  Read off the tables, not off the queries of \<^verbatim>\<open>attempt_create\<close>: \<open>v\<close> is the latest
  version of a question when \<^verbatim>\<open>question_versions\<close> holds a row of the question with
  version \<open>v\<close> and no row of the question with a greater one. For a question of the test
  given by its \<open>(question_id, position)\<close>: the AttemptQuestion that pins the latest
  version at that position, and the Answer initialised to -1 for the latest version.
\<close>

definition latest_version :: "database \<Rightarrow> int \<Rightarrow> int \<Rightarrow> bool" where
  "latest_version db question_id v =
     ((\<exists>w \<in> set (question_versions db).
         QuestionVersion_question_id w = question_id \<and> QuestionVersion_version w = v)
      \<and> (\<forall>w \<in> set (question_versions db).
            QuestionVersion_question_id w = question_id \<longrightarrow> QuestionVersion_version w \<le> v))"

definition pins :: "database \<Rightarrow> int \<Rightarrow> int \<times> int \<Rightarrow> AttemptQuestion \<Rightarrow> bool" where
  "pins db attempt_id row aq =
     (AttemptQuestion_attempt_id aq = attempt_id
      \<and> AttemptQuestion_question_id aq = fst row
      \<and> AttemptQuestion_position aq = snd row
      \<and> latest_version db (fst row) (AttemptQuestion_question_version aq))"

definition blank_answer :: "database \<Rightarrow> int \<Rightarrow> int \<times> int \<Rightarrow> Answer \<Rightarrow> bool" where
  "blank_answer db attempt_id row a =
     (Answer_attempt_id a = attempt_id
      \<and> Answer_question_id a = fst row
      \<and> Answer_answer_index a = - 1
      \<and> latest_version db (fst row) (Answer_question_version a))"

text \<open>The state-conflict error of a test that already has attempts.\<close>

definition has_attempts_error :: error where
  "has_attempts_error =
     HTTPException 400 ''Bad Request'' (Some (''message'', ''Test has attempts, modification forbidden''))"

text \<open>
  The two 400 errors of the answer routers, and the database in which the answer with
  a given id carries a given index.
\<close>

definition finished_error :: error where
  "finished_error = HTTPException 400 ''Bad Request'' (Some (''message'', ''Attempt already finished''))"

definition negative_index_error :: error where
  "negative_index_error =
     HTTPException 400 ''Bad Request''
       (Some (''message'', ''index must be >= 0 (use answer_delete to reset to -1)''))"

definition with_answer_index :: "int \<Rightarrow> int \<Rightarrow> database \<Rightarrow> database" where
  "with_answer_index answer_id index db =
     db\<lparr>answers := map (\<lambda>a. if Answer_id a = answer_id then a\<lparr>Answer_answer_index := index\<rparr> else a)
                      (answers db)\<rparr>"

text \<open>The validation error of a reorder list that does not match the test's questions.\<close>

definition order_mismatch_error :: error where
  "order_mismatch_error =
     HTTPException 400 ''Bad Request''
       (Some (''message'', ''Order list must contain exactly the same question ids as in test''))"

section \<open>Handlers that leave the committed database alone\<close>

text \<open>
  A handler is steady when no run of it changes the committed database, and quiet when
  no run that ends in an exception does.
\<close>

definition steady :: "'a handler \<Rightarrow> bool" where
  "steady h = (\<forall>s r s'. h s = (r, s') \<longrightarrow> committed s' = committed s)"

definition quiet :: "'a handler \<Rightarrow> bool" where
  "quiet h = (\<forall>s e s'. h s = (Inl e, s') \<longrightarrow> committed s' = committed s)"

section \<open>Example databases\<close>

text \<open>
  One course of teacher 10 with one active test of four questions; user 20 has attempt 7
  with the pinned correct indexes 1, 0, 2, 1 and the answers 1, -1, 2, 0.
\<close>

definition grading_example :: database where
  "grading_example =
     \<lparr>courses = [\<lparr>Course_id = 1, Course_name = ''c'', Course_description = [], Course_teacher_id = 10,
                  Course_is_deleted = False\<rparr>],
      questions = map (\<lambda>i. \<lparr>Question_id = i, Question_author_id = 10, Question_is_deleted = False\<rparr>)
                    [1, 2, 3, 4],
      question_versions =
        map (\<lambda>(i, c). \<lparr>QuestionVersion_question_id = i, QuestionVersion_version = 1,
                        QuestionVersion_title = ''t'', QuestionVersion_body = ''b'',
                        QuestionVersion_options = [''x'', ''y'', ''z''],
                        QuestionVersion_correct_index = c\<rparr>) [(1, 1), (2, 0), (3, 2), (4, 1)],
      tests = [\<lparr>Test_id = 1, Test_course_id = 1, Test_name = ''t'', Test_author_id = 10,
                Test_is_active = True, Test_is_deleted = False\<rparr>],
      test_questions = map (\<lambda>i. \<lparr>TestQuestion_test_id = 1, TestQuestion_question_id = i,
                                  TestQuestion_position = i - 1\<rparr>) [1, 2, 3, 4],
      attempts = [\<lparr>Attempt_id = 7, Attempt_test_id = 1, Attempt_user_id = 20,
                   Attempt_status = ''finished''\<rparr>],
      attempt_questions = map (\<lambda>i. \<lparr>AttemptQuestion_attempt_id = 7, AttemptQuestion_question_id = i,
                                     AttemptQuestion_question_version = 1,
                                     AttemptQuestion_position = i - 1\<rparr>) [1, 2, 3, 4],
      answers = map (\<lambda>(i, x). \<lparr>Answer_id = i, Answer_attempt_id = 7, Answer_question_id = i,
                                Answer_question_version = 1, Answer_answer_index = x\<rparr>)
                  [(1, 1), (2, - 1), (3, 2), (4, 0)]\<rparr>"

text \<open>The same course and test before anyone has started an attempt.\<close>

definition composition_example :: database where
  "composition_example = grading_example\<lparr>attempts := [], attempt_questions := [], answers := []\<rparr>"

text \<open>The test of the first example deactivated, and soft-deleted.\<close>

definition inactive_example :: database where
  "inactive_example = grading_example\<lparr>tests := map (\<lambda>t. t\<lparr>Test_is_active := False\<rparr>) (tests grading_example)\<rparr>"

definition deleted_example :: database where
  "deleted_example = grading_example\<lparr>tests := map (\<lambda>t. t\<lparr>Test_is_deleted := True\<rparr>) (tests grading_example)\<rparr>"

text \<open>What \<^verbatim>\<open>attempt_create\<close> of user 20 leaves of the composition example.\<close>

definition created_example :: database where
  "created_example =
     composition_example
       \<lparr>attempts := [\<lparr>Attempt_id = 1, Attempt_test_id = 1, Attempt_user_id = 20,
                      Attempt_status = ''in_progress''\<rparr>],
        attempt_questions := map (\<lambda>i. \<lparr>AttemptQuestion_attempt_id = 1, AttemptQuestion_question_id = i,
                                     AttemptQuestion_question_version = 1,
                                     AttemptQuestion_position = i - 1\<rparr>) [1, 2, 3, 4],
        answers := map (\<lambda>i. \<lparr>Answer_id = i, Answer_attempt_id = 1, Answer_question_id = i,
                                Answer_question_version = 1, Answer_answer_index = - 1\<rparr>) [1, 2, 3, 4]\<rparr>"

text \<open>The composition example with every version of question 4 removed.\<close>

definition unversioned_example :: database where
  "unversioned_example =
     composition_example\<lparr>question_versions :=
        filter (\<lambda>v. QuestionVersion_question_id v \<noteq> 4) (question_versions composition_example)\<rparr>"

text \<open>The created attempt after its owner chose option 2 for answer 1.\<close>

definition answered_example :: database where
  "answered_example = with_answer_index 1 2 created_example"

text \<open>
  The graded example after the author published version 2 of question 1, whose correct
  option is now 0.
\<close>

definition revised_example :: database where
  "revised_example =
     grading_example\<lparr>question_versions := question_versions grading_example @
        [\<lparr>QuestionVersion_question_id = 1, QuestionVersion_version = 2,
          QuestionVersion_title = ''t2'', QuestionVersion_body = ''b2'',
          QuestionVersion_options = [''p'', ''q''], QuestionVersion_correct_index = 0\<rparr>]\<rparr>"

text \<open>The graded example after the course was soft-deleted: the test still has its attempt.\<close>

definition orphaned_example :: database where
  "orphaned_example =
     grading_example\<lparr>courses := map (\<lambda>c. c\<lparr>Course_is_deleted := True\<rparr>) (courses grading_example)\<rparr>"

text \<open>The created attempt after the test was deactivated.\<close>

definition deactivated_example :: database where
  "deactivated_example =
     created_example\<lparr>tests := map (\<lambda>t. t\<lparr>Test_is_active := False\<rparr>) (tests created_example)\<rparr>"

text \<open>
  Two tests of one course. Test 1 holds question 3 at position 5, question 1 at position
  0 and question 2 at position 2, stored in that order; question 1 has versions 1 and 2,
  question 2 has versions 2 and 1 (stored in that order), question 3 has version 1.
  The second database is what \<^verbatim>\<open>attempt_create\<close> of user 20 on test 1 leaves.
\<close>

definition gapped_example :: database where
  "gapped_example =
     \<lparr>courses = [\<lparr>Course_id = 1, Course_name = ''c'', Course_description = [], Course_teacher_id = 10,
                  Course_is_deleted = False\<rparr>],
      questions = map (\<lambda>i. \<lparr>Question_id = i, Question_author_id = 10, Question_is_deleted = False\<rparr>)
                    [1, 2, 3],
      question_versions =
        map (\<lambda>(i, v, c). \<lparr>QuestionVersion_question_id = i, QuestionVersion_version = v,
                           QuestionVersion_title = ''t'', QuestionVersion_body = ''b'',
                           QuestionVersion_options = [''x'', ''y'', ''z''],
                           QuestionVersion_correct_index = c\<rparr>)
          [(1, 1, 1), (1, 2, 0), (2, 2, 1), (2, 1, 0), (3, 1, 2)],
      tests = map (\<lambda>i. \<lparr>Test_id = i, Test_course_id = 1, Test_name = ''t'', Test_author_id = 10,
                          Test_is_active = True, Test_is_deleted = False\<rparr>) [1, 2],
      test_questions = map (\<lambda>(t, q, p). \<lparr>TestQuestion_test_id = t, TestQuestion_question_id = q,
                                          TestQuestion_position = p\<rparr>)
                         [(1, 3, 5), (2, 1, 0), (1, 1, 0), (1, 2, 2)],
      attempts = [],
      attempt_questions = [],
      answers = []\<rparr>"

definition gapped_created_example :: database where
  "gapped_created_example =
     gapped_example
       \<lparr>attempts := [\<lparr>Attempt_id = 1, Attempt_test_id = 1, Attempt_user_id = 20,
                      Attempt_status = ''in_progress''\<rparr>],
        attempt_questions :=
          map (\<lambda>(q, v, p). \<lparr>AttemptQuestion_attempt_id = 1, AttemptQuestion_question_id = q,
                             AttemptQuestion_question_version = v,
                             AttemptQuestion_position = p\<rparr>) [(1, 2, 0), (2, 2, 2), (3, 1, 5)],
        answers :=
          map (\<lambda>(i, q, v). \<lparr>Answer_id = i, Answer_attempt_id = 1, Answer_question_id = q,
                             Answer_question_version = v, Answer_answer_index = - 1\<rparr>)
            [(1, 1, 2), (2, 2, 2), (3, 3, 1)]\<rparr>"

section \<open>Properties\<close>

subsection \<open>Rounding\<close>

lemma round_half_even_nearest:
  assumes "0 < d"
  shows "2 * \<bar>d * round_half_even n d - n\<bar> \<le> d"
proof -
  have n: "n = d * (n div d) + n mod d" by simp
  have r: "0 \<le> n mod d" "n mod d < d" using assms by simp_all
  have *: "d * (n div d) - n = - (n mod d)" "d * (n div d + 1) - n = d - n mod d"
    using n by (simp_all add: algebra_simps)
  show ?thesis using r
    by (auto simp: round_half_even_def Let_def * simp del: div_mult_mod_eq mult_div_mod_eq)
qed

lemma round_half_even_tie:
  assumes "0 < d" and "2 * \<bar>d * round_half_even n d - n\<bar> = d"
  shows "even (round_half_even n d)"
proof -
  have n: "n = d * (n div d) + n mod d" by simp
  have r: "0 \<le> n mod d" "n mod d < d" using assms by simp_all
  have *: "d * (n div d) - n = - (n mod d)" "d * (n div d + 1) - n = d - n mod d"
    using n by (simp_all add: algebra_simps)
  show ?thesis using r assms(2)
    by (auto simp: round_half_even_def Let_def * split: if_splits simp del: div_mult_mod_eq mult_div_mod_eq)
qed

subsection \<open>Grading\<close>

lemma length_filter_product:
  "length (filter P (List.product xs ys)) = (\<Sum>x\<leftarrow>xs. length (filter (\<lambda>y. P (x, y)) ys))"
  by (induction xs) (simp_all add: filter_map comp_def)

lemma length_filter_sum: "length (filter P xs) = (\<Sum>x\<leftarrow>xs. if P x then 1 else 0)"
  by (induction xs) simp_all

lemma count_by_key:
  "distinct (map k vs) \<Longrightarrow>
   length (filter (\<lambda>v. k v = x \<and> R v) vs) =
     (case find (\<lambda>v. k v = x) vs of None \<Rightarrow> 0 | Some v \<Rightarrow> if R v then 1 else 0)"
proof (induction vs)
  case Nil
  then show ?case by simp
next
  case (Cons v vs)
  show ?case
  proof (cases "k v = x")
    case True
    with Cons.prems have "\<forall>w\<in>set vs. k w \<noteq> x" by (auto simp: image_iff)
    then have "filter (\<lambda>v. k v = x \<and> R v) vs = []" by (simp add: filter_empty_conv)
    with True show ?thesis by simp
  next
    case False
    with Cons show ?thesis by simp
  qed
qed

lemma count_correct_spec:
  assumes "distinct (map qv_key (question_versions db))"
  shows "count_correct attempt_id db = spec_correct db attempt_id"
proof -
  have "length (filter (\<lambda>v. qv_key v = (Answer_question_id a, Answer_question_version a)
            \<and> (Answer_attempt_id a = attempt_id \<and> Answer_answer_index a \<noteq> - 1
               \<and> Answer_answer_index a = QuestionVersion_correct_index v)) (question_versions db))
        = (if Answer_attempt_id a = attempt_id \<and> (Answer_answer_index a \<noteq> - 1
               \<and> pinned_correct_index db a = Some (Answer_answer_index a)) then 1 else 0)" for a
    using count_by_key [OF assms]
    by (auto simp: pinned_correct_index_def split: option.splits)
  then show ?thesis
    unfolding count_correct_def spec_correct_def attempt_answers_def
    by (simp add: length_filter_product qv_key_def length_filter_sum [of "\<lambda>a. _ a \<and> _ a"])
qed

text \<open>
  C2. When the test is found with its course, the caller is the course's teacher or holds
  \<^verbatim>\<open>test:answer:read\<close>, and the user has an attempt, \<^verbatim>\<open>test_user_grade\<close> returns
  total = the number of Answer rows of the attempt, correct = the number of those rows
  whose answer_index is not -1 and equals the correct_index of the pinned
  (question_id, version), and grade_percent = round(100 * correct / total), 0 when total
  is 0; nothing is written. The primary key of \<^verbatim>\<open>question_versions\<close> makes the pinned
  version unique.
\<close>

theorem test_user_grade_counts:
  assumes pk: "distinct (map qv_key (question_versions db))"
    and found: "filter (\<lambda>(t, c). Course_id c = Test_course_id t \<and> Test_id t = test_id
                              \<and> \<not> Test_is_deleted t \<and> \<not> Course_is_deleted c)
                  (List.product (tests db) (courses db)) = (test, course) # others"
    and allowed: "Course_teacher_id course = user_id cur \<or> has_perm cur ''test:answer:read''"
    and att: "filter (\<lambda>a. Attempt_test_id a = Test_id test \<and> Attempt_user_id a = uid) (attempts db)
                = [attempt]"
  shows "run_request (test_user_grade test_id uid cur) db =
           (Inr \<lparr>grade_test_id = Test_id test, grade_user_id = uid,
                 grade_attempt_id = Attempt_id attempt,
                 grade_correct = spec_correct db (Attempt_id attempt),
                 grade_total = spec_total db (Attempt_id attempt),
                 grade_percent = spec_grade_percent (spec_correct db (Attempt_id attempt))
                                   (spec_total db (Attempt_id attempt))\<rparr>, db)"
proof -
  have total: "count_answers (Attempt_id attempt) db = spec_total db (Attempt_id attempt)"
    by (simp add: count_answers_def spec_total_def attempt_answers_def)
  have zero: "spec_total db (Attempt_id attempt) = 0 \<Longrightarrow> spec_correct db (Attempt_id attempt) = 0"
    by (simp add: spec_total_def spec_correct_def)
  show ?thesis
    using found allowed att zero
    by (auto simp: run_request_def test_user_grade_def get_test_course_def first_def
        ensure_teacher_or_perm_def scalar_one_or_none_def andthen_def ok_def http_error_def
        raise_def query_def total count_correct_spec [OF pk] spec_grade_percent_def)
qed

text \<open>
  The specification's example: pinned correct indexes 1, 0, 2, 1 and answers 1, -1, 2, 0
  give correct = 2, total = 4 and grade_percent = 50.
\<close>

theorem test_user_grade_counts_witness:
  "run_request (test_user_grade 1 20 \<lparr>user_id = 10, permissions = {}\<rparr>) grading_example =
     (Inr \<lparr>grade_test_id = 1, grade_user_id = 20, grade_attempt_id = 7,
           grade_correct = 2, grade_total = 4, grade_percent = 50\<rparr>, grading_example)"
  using test_user_grade_counts [of grading_example 1
      "\<lparr>Test_id = 1, Test_course_id = 1, Test_name = ''t'', Test_author_id = 10,
        Test_is_active = True, Test_is_deleted = False\<rparr>"
      "\<lparr>Course_id = 1, Course_name = ''c'', Course_description = [], Course_teacher_id = 10,
                  Course_is_deleted = False\<rparr>" "[]"
      "\<lparr>user_id = 10, permissions = {}\<rparr>" 20
      "\<lparr>Attempt_id = 7, Attempt_test_id = 1, Attempt_user_id = 20,
                   Attempt_status = ''finished''\<rparr>"]
  by (simp add: grading_example_def qv_key_def spec_correct_def spec_total_def attempt_answers_def
      pinned_correct_index_def spec_grade_percent_def round_half_even_def)

subsection \<open>Decomposing a run\<close>

lemma filter_singletonD: "filter P xs = [x] \<Longrightarrow> P x \<and> x \<in> set xs"
proof -
  assume h: "filter P xs = [x]"
  have "x \<in> set (filter P xs)" by (simp add: h)
  then show ?thesis by simp
qed

lemma fresh_sel: "committed (fresh db) = db" "working (fresh db) = db"
  by (simp_all add: fresh_def)

lemma run_request_fresh: "run_request h db = (case h (fresh db) of (r, s) \<Rightarrow> (r, committed s))"
  by (simp add: run_request_def fresh_def)

lemma andthen_Inr:
  "(andthen m f s = (Inr y, s'')) = (\<exists>x s'. m s = (Inr x, s') \<and> f x s' = (Inr y, s''))"
  by (auto simp: andthen_def split: prod.splits sum.splits)

lemma andthen_Inl:
  "(andthen m f s = (Inl e, s'')) =
     (m s = (Inl e, s'') \<or> (\<exists>x s'. m s = (Inr x, s') \<and> f x s' = (Inl e, s'')))"
  by (auto simp: andthen_def split: prod.splits sum.splits)

lemma statement_Inr:
  "(statement f acc s = (Inr u, s')) = (acc (f (working s)) \<and> s' = s\<lparr>working := f (working s)\<rparr>)"
  by (auto simp: statement_def)

lemma query_eq: "(query g s = (r, s')) = (r = Inr (g (working s)) \<and> s' = s)"
  by (auto simp: query_def)

lemma ok_eq: "(ok x s = (r, s')) = (r = Inr x \<and> s' = s)"
  by (auto simp: ok_def)

lemma http_error_eq:
  "(http_error c m d s = (r, s')) = (r = Inl (HTTPException c m d) \<and> s' = s)"
  by (auto simp: http_error_def raise_def)

lemma scalar_one_or_none_eq:
  "(scalar_one_or_none rows s = (r, s')) =
     (s' = s \<and> (case rows (working s) of [] \<Rightarrow> r = Inr None | [x] \<Rightarrow> r = Inr (Some x)
                  | _ \<Rightarrow> r = Inl MultipleResultsFound))"
  by (auto simp: scalar_one_or_none_def split: list.splits)

lemma commit_eq: "(commit s = (r, s')) = (r = Inr () \<and> s' = s\<lparr>committed := working s\<rparr>)"
  by (auto simp: commit_def)

lemma steady_quiet: "steady h \<Longrightarrow> quiet h"
  by (simp add: steady_def quiet_def)

lemma steady_andthen: "steady m \<Longrightarrow> (\<And>x. steady (f x)) \<Longrightarrow> steady (andthen m f)"
  unfolding steady_def andthen_def
  by (auto split: prod.splits sum.splits)

lemma quiet_andthen: "steady m \<Longrightarrow> (\<And>x. quiet (f x)) \<Longrightarrow> quiet (andthen m f)"
  unfolding steady_def quiet_def andthen_def
  by (auto split: prod.splits sum.splits)

lemma steady_basic:
  "steady (ok x)" "steady (raise e)" "steady (http_error c m d)" "steady (query g)"
  "steady (scalar_one_or_none rows)" "steady (first rows)" "steady (statement f acc)"
  by (auto simp: steady_def ok_def raise_def http_error_def query_def scalar_one_or_none_def
      first_def statement_def split: list.splits if_splits)

lemma quiet_commit_ok: "quiet (andthen commit (\<lambda>_. ok x))"
  by (simp add: quiet_def andthen_def commit_def ok_def)

lemma quiet_if: "quiet a \<Longrightarrow> quiet b \<Longrightarrow> quiet (if c then a else b)"
  by simp

lemma quiet_option: "quiet a \<Longrightarrow> (\<And>x. quiet (f x)) \<Longrightarrow> quiet (case v of None \<Rightarrow> a | Some x \<Rightarrow> f x)"
  by (cases v) simp_all

lemma steady_option: "steady a \<Longrightarrow> (\<And>x. steady (f x)) \<Longrightarrow> steady (case v of None \<Rightarrow> a | Some x \<Rightarrow> f x)"
  by (cases v) simp_all

subsection \<open>Test composition\<close>

lemma get_test_or_404_found:
  "filter (\<lambda>t. Test_id t = test_id \<and> \<not> Test_is_deleted t) (tests (working s)) = [test]
   \<Longrightarrow> get_test_or_404 test_id s = (Inr test, s)"
  by (simp add: get_test_or_404_def andthen_def scalar_one_or_none_def ok_def)

lemma get_course_or_404_found:
  "filter (\<lambda>c. Course_id c = course_id \<and> \<not> Course_is_deleted c) (courses (working s)) = [course]
   \<Longrightarrow> get_course_or_404 course_id s = (Inr course, s)"
  by (simp add: get_course_or_404_def andthen_def scalar_one_or_none_def ok_def)

lemma count_attempts_pos:
  "(0 < count_attempts test_id db) = (\<exists>a \<in> set (attempts db). Attempt_test_id a = test_id)"
  by (auto simp: count_attempts_def filter_empty_conv)

lemma ensure_can_edit_test_attempts:
  assumes "filter (\<lambda>c. Course_id c = Test_course_id test \<and> \<not> Course_is_deleted c) (courses (working s)) = [course]"
    and "\<exists>a \<in> set (attempts (working s)). Attempt_test_id a = Test_id test"
  shows "ensure_can_edit_test cur test s = (Inl has_attempts_error, s)"
  using assms(2)
  by (simp add: ensure_can_edit_test_def andthen_def get_course_or_404_found [OF assms(1)]
      query_def count_attempts_pos http_error_def raise_def has_attempts_error_def)

lemma ensure_can_edit_test_no_attempts:
  assumes "filter (\<lambda>c. Course_id c = Test_course_id test \<and> \<not> Course_is_deleted c) (courses (working s)) = [course]"
    and "\<not> (\<exists>a \<in> set (attempts (working s)). Attempt_test_id a = Test_id test)"
  shows "ensure_can_edit_test cur test s =
           (if Course_teacher_id course = user_id cur then (Inr (), s)
            else (Inl (HTTPException 403 ''Forbidden''
                   (Some (''message'', ''Not allowed by default; need permission''))), s))"
  using assms(2)
  by (simp add: ensure_can_edit_test_def andthen_def get_course_or_404_found [OF assms(1)]
      query_def count_attempts_pos http_error_def raise_def ok_def)

text \<open>
  C3, as the code has it. For every test that has at least one attempt, \<^verbatim>\<open>test_question_add\<close>,
  \<^verbatim>\<open>test_question_del\<close> and \<^verbatim>\<open>test_question_order\<close> each fail whoever the caller is and
  whatever permissions the caller holds, and return the session as it was opened, so no
  statement was sent. When the test and its course are found (existing and not
  soft-deleted) the error is the state-conflict error (400, "Test has attempts,
  modification forbidden"); when the test is not found, or is found and its course is
  not, the error is 404 "Not found": the two lookups run before the attempt count, and
  the attempt count before ownership and permissions.
\<close>

theorem composition_locked_by_attempts:
  assumes "\<exists>a \<in> set (attempts db). Attempt_test_id a = test_id"
  shows "(filter (\<lambda>t. Test_id t = test_id \<and> \<not> Test_is_deleted t) (tests db) = [] \<longrightarrow>
            test_question_add test_id question_id cur (fresh db) = (Inl (HTTPException 404 ''Not found'' None), fresh db)
            \<and> test_question_del test_id question_id cur (fresh db) = (Inl (HTTPException 404 ''Not found'' None), fresh db)
            \<and> test_question_order test_id questionIdsCsv cur (fresh db) = (Inl (HTTPException 404 ''Not found'' None), fresh db))
       \<and> (\<forall>test. filter (\<lambda>t. Test_id t = test_id \<and> \<not> Test_is_deleted t) (tests db) = [test] \<longrightarrow>
            (filter (\<lambda>c. Course_id c = Test_course_id test \<and> \<not> Course_is_deleted c) (courses db) = [] \<longrightarrow>
               test_question_add test_id question_id cur (fresh db) = (Inl (HTTPException 404 ''Not found'' None), fresh db)
               \<and> test_question_del test_id question_id cur (fresh db) = (Inl (HTTPException 404 ''Not found'' None), fresh db)
               \<and> test_question_order test_id questionIdsCsv cur (fresh db) = (Inl (HTTPException 404 ''Not found'' None), fresh db))
          \<and> (\<forall>course.
                filter (\<lambda>c. Course_id c = Test_course_id test \<and> \<not> Course_is_deleted c) (courses db) = [course] \<longrightarrow>
               test_question_add test_id question_id cur (fresh db) = (Inl has_attempts_error, fresh db)
               \<and> test_question_del test_id question_id cur (fresh db) = (Inl has_attempts_error, fresh db)
               \<and> test_question_order test_id questionIdsCsv cur (fresh db) = (Inl has_attempts_error, fresh db)))"
proof -
  have missing: "test_question_add test_id question_id cur (fresh db) = (Inl (HTTPException 404 ''Not found'' None), fresh db)
       \<and> test_question_del test_id question_id cur (fresh db) = (Inl (HTTPException 404 ''Not found'' None), fresh db)
       \<and> test_question_order test_id questionIdsCsv cur (fresh db) = (Inl (HTTPException 404 ''Not found'' None), fresh db)"
    if "filter (\<lambda>t. Test_id t = test_id \<and> \<not> Test_is_deleted t) (tests db) = []"
    using that
    by (simp add: test_question_add_def test_question_del_def test_question_order_def
        andthen_def get_test_or_404_def scalar_one_or_none_def http_error_def raise_def fresh_sel)
  have orphan: "test_question_add test_id question_id cur (fresh db) = (Inl (HTTPException 404 ''Not found'' None), fresh db)
       \<and> test_question_del test_id question_id cur (fresh db) = (Inl (HTTPException 404 ''Not found'' None), fresh db)
       \<and> test_question_order test_id questionIdsCsv cur (fresh db) = (Inl (HTTPException 404 ''Not found'' None), fresh db)"
    if t: "filter (\<lambda>t. Test_id t = test_id \<and> \<not> Test_is_deleted t) (tests db) = [test]"
      and c: "filter (\<lambda>c. Course_id c = Test_course_id test \<and> \<not> Course_is_deleted c) (courses db) = []"
    for test
  proof -
    have t': "filter (\<lambda>t. Test_id t = test_id \<and> \<not> Test_is_deleted t) (tests (working (fresh db))) = [test]"
      using t by (simp add: fresh_sel)
    have e: "ensure_can_edit_test cur test (fresh db) = (Inl (HTTPException 404 ''Not found'' None), fresh db)"
      using c
      by (simp add: ensure_can_edit_test_def get_course_or_404_def andthen_def
          scalar_one_or_none_def http_error_def raise_def fresh_sel)
    show ?thesis
      by (simp add: test_question_add_def test_question_del_def test_question_order_def
          andthen_def get_test_or_404_found [OF t'] e)
  qed
  have locked: "test_question_add test_id question_id cur (fresh db) = (Inl has_attempts_error, fresh db)
       \<and> test_question_del test_id question_id cur (fresh db) = (Inl has_attempts_error, fresh db)
       \<and> test_question_order test_id questionIdsCsv cur (fresh db) = (Inl has_attempts_error, fresh db)"
    if t: "filter (\<lambda>t. Test_id t = test_id \<and> \<not> Test_is_deleted t) (tests db) = [test]"
      and c: "filter (\<lambda>c. Course_id c = Test_course_id test \<and> \<not> Course_is_deleted c) (courses db) = [course]"
    for test course
  proof -
    have t': "filter (\<lambda>t. Test_id t = test_id \<and> \<not> Test_is_deleted t) (tests (working (fresh db))) = [test]"
      using t by (simp add: fresh_sel)
    have id: "Test_id test = test_id"
      using filter_singletonD [OF t] by simp
    have e: "ensure_can_edit_test cur test (fresh db) = (Inl has_attempts_error, fresh db)"
      using c assms id by (intro ensure_can_edit_test_attempts) (simp_all add: fresh_sel)
    show ?thesis
      by (simp add: test_question_add_def test_question_del_def test_question_order_def
          andthen_def get_test_or_404_found [OF t'] e)
  qed
  from missing orphan locked show ?thesis by blast
qed

text \<open>
  The graded example has an attempt on test 1: even the course's teacher is refused
  with the state-conflict error, and with 404 once the course is soft-deleted.
\<close>

theorem composition_locked_by_attempts_witness:
  "test_question_add 1 2 \<lparr>user_id = 10, permissions = {''test:quest:add''}\<rparr> (fresh grading_example) = (Inl has_attempts_error, fresh grading_example)
   \<and> test_question_del 1 2 \<lparr>user_id = 10, permissions = {''test:quest:add''}\<rparr> (fresh grading_example) = (Inl has_attempts_error, fresh grading_example)
   \<and> test_question_order 1 ''4,3,2,1'' \<lparr>user_id = 10, permissions = {''test:quest:add''}\<rparr> (fresh grading_example) = (Inl has_attempts_error, fresh grading_example)
   \<and> test_question_add 1 2 \<lparr>user_id = 10, permissions = {''test:quest:add''}\<rparr> (fresh orphaned_example) = (Inl (HTTPException 404 ''Not found'' None), fresh orphaned_example)
   \<and> test_question_del 1 2 \<lparr>user_id = 10, permissions = {''test:quest:add''}\<rparr> (fresh orphaned_example) = (Inl (HTTPException 404 ''Not found'' None), fresh orphaned_example)
   \<and> test_question_order 1 ''4,3,2,1'' \<lparr>user_id = 10, permissions = {''test:quest:add''}\<rparr> (fresh orphaned_example) = (Inl (HTTPException 404 ''Not found'' None), fresh orphaned_example)"
proof -
  have a: "\<exists>a \<in> set (attempts grading_example). Attempt_test_id a = 1"
    "\<exists>a \<in> set (attempts orphaned_example). Attempt_test_id a = 1"
    by (simp_all add: grading_example_def orphaned_example_def)
  from composition_locked_by_attempts [OF a(1), of 2 "\<lparr>user_id = 10, permissions = {''test:quest:add''}\<rparr>" "''4,3,2,1''"]
    composition_locked_by_attempts [OF a(2), of 2 "\<lparr>user_id = 10, permissions = {''test:quest:add''}\<rparr>" "''4,3,2,1''"]
  show ?thesis
    by (simp add: grading_example_def orphaned_example_def)
qed

text \<open>
  C3 as stated fails: test 1 of the orphaned example is not soft-deleted and has attempt
  7, its course is soft-deleted, and the three operations answer 404 "Not found", not
  the state-conflict error.
\<close>

theorem composition_in_deleted_course_not_found:
  "map (\<lambda>t. (Test_course_id t, Test_is_deleted t)) (filter (\<lambda>t. Test_id t = 1) (tests orphaned_example))
     = [(1, False)]
   \<and> map Attempt_id (filter (\<lambda>a. Attempt_test_id a = 1) (attempts orphaned_example)) = [7]
   \<and> map Course_is_deleted (filter (\<lambda>c. Course_id c = 1) (courses orphaned_example)) = [True]
   \<and> test_question_add 1 2 \<lparr>user_id = 10, permissions = {}\<rparr> (fresh orphaned_example) = (Inl (HTTPException 404 ''Not found'' None), fresh orphaned_example)
   \<and> test_question_del 1 2 \<lparr>user_id = 10, permissions = {}\<rparr> (fresh orphaned_example) = (Inl (HTTPException 404 ''Not found'' None), fresh orphaned_example)
   \<and> test_question_order 1 ''4,3,2,1'' \<lparr>user_id = 10, permissions = {}\<rparr> (fresh orphaned_example) = (Inl (HTTPException 404 ''Not found'' None), fresh orphaned_example)"
  by (simp add: test_question_add_def test_question_del_def test_question_order_def
      andthen_def get_test_or_404_def get_course_or_404_def ensure_can_edit_test_def
      scalar_one_or_none_def ok_def http_error_def raise_def fresh_def
      orphaned_example_def grading_example_def)

text \<open>
  In a test without attempts, \<^verbatim>\<open>ensure_can_edit_test\<close> raises 403 for every caller who is
  not the course's teacher, before the router looks at the caller's permissions.
\<close>

lemma override_permission_ignored:
  assumes "filter (\<lambda>t. Test_id t = test_id \<and> \<not> Test_is_deleted t) (tests db) = [test]"
    and "filter (\<lambda>c. Course_id c = Test_course_id test \<and> \<not> Course_is_deleted c) (courses db) = [course]"
    and "\<not> (\<exists>a \<in> set (attempts db). Attempt_test_id a = test_id)"
    and "Course_teacher_id course \<noteq> user_id cur"
  shows "test_question_add test_id question_id cur (fresh db)
           = (Inl (HTTPException 403 ''Forbidden'' (Some (''message'', ''Not allowed by default; need permission''))), fresh db)
       \<and> test_question_del test_id question_id cur (fresh db)
           = (Inl (HTTPException 403 ''Forbidden'' (Some (''message'', ''Not allowed by default; need permission''))), fresh db)
       \<and> test_question_order test_id questionIdsCsv cur (fresh db)
           = (Inl (HTTPException 403 ''Forbidden'' (Some (''message'', ''Not allowed by default; need permission''))), fresh db)"
proof -
  have t: "filter (\<lambda>t. Test_id t = test_id \<and> \<not> Test_is_deleted t) (tests (working (fresh db))) = [test]"
    using assms(1) by (simp add: fresh_def)
  have id: "Test_id test = test_id"
    using filter_singletonD [OF assms(1)] by simp
  have e: "ensure_can_edit_test cur test (fresh db) = (Inl (HTTPException 403 ''Forbidden'' (Some (''message'', ''Not allowed by default; need permission''))), fresh db)"
    using ensure_can_edit_test_no_attempts [of test "fresh db" course cur] assms(2,3,4) id
    by (simp add: fresh_def)
  show ?thesis
    by (simp add: test_question_add_def test_question_del_def test_question_order_def
        andthen_def get_test_or_404_found [OF t] e)
qed

text \<open>
  C7. The claim that the override permission of an action (\<^verbatim>\<open>test:quest:add\<close>,
  \<^verbatim>\<open>test:quest:del\<close>, \<^verbatim>\<open>test:quest:update\<close>) lets an actor who is not the course's teacher
  change the composition of a test without attempts does not hold of the code: user 30,
  holding the permission, is refused with 403 by \<^verbatim>\<open>ensure_can_edit_test\<close> in all three
  operations on the composition example, and nothing is written.
\<close>

theorem override_permission_denied_example:
  "test_question_add 1 2 \<lparr>user_id = 30, permissions = {''test:quest:add''}\<rparr> (fresh composition_example)
      = (Inl (HTTPException 403 ''Forbidden'' (Some (''message'', ''Not allowed by default; need permission''))), fresh composition_example)
   \<and> test_question_del 1 2 \<lparr>user_id = 30, permissions = {''test:quest:del''}\<rparr> (fresh composition_example)
      = (Inl (HTTPException 403 ''Forbidden'' (Some (''message'', ''Not allowed by default; need permission''))), fresh composition_example)
   \<and> test_question_order 1 ''1,2,3,4'' \<lparr>user_id = 30, permissions = {''test:quest:update''}\<rparr> (fresh composition_example)
      = (Inl (HTTPException 403 ''Forbidden'' (Some (''message'', ''Not allowed by default; need permission''))), fresh composition_example)"
  by (simp add: test_question_add_def test_question_del_def test_question_order_def
        andthen_def get_test_or_404_def get_course_or_404_def ensure_can_edit_test_def scalar_one_or_none_def
        query_def count_attempts_def http_error_def raise_def ok_def fresh_def
        composition_example_def grading_example_def)

subsection \<open>Creating an attempt\<close>

lemma sql_max_ge: "sql_max xs = Some m \<Longrightarrow> x \<in> set xs \<Longrightarrow> x \<le> m"
proof (cases xs)
  case Nil
  then show "sql_max xs = Some m \<Longrightarrow> x \<in> set xs \<Longrightarrow> x \<le> m" by simp
next
  case (Cons y ys)
  assume "sql_max xs = Some m" and x: "x \<in> set xs"
  with Cons have "m = fold max ys y" by simp
  also have "\<dots> = Max (set (y # ys))" by (rule Max.set_eq_fold [symmetric])
  finally show "x \<le> m" using x Cons by simp
qed

lemma sql_max_None: "(sql_max xs = None) = (xs = [])"
  by (cases xs) simp_all

lemma sql_max_in: "sql_max xs = Some m \<Longrightarrow> m \<in> set xs"
proof (cases xs)
  case Nil
  then show "sql_max xs = Some m \<Longrightarrow> m \<in> set xs" by simp
next
  case (Cons y ys)
  assume "sql_max xs = Some m"
  with Cons have "m = fold max ys y" by simp
  also have "\<dots> = Max (set (y # ys))" by (rule Max.set_eq_fold [symmetric])
  also have "\<dots> \<in> set (y # ys)" by (rule Max_in) simp_all
  finally show "m \<in> set xs" using Cons by simp
qed

lemma max_version_latest:
  assumes "max_version q db = Some v"
  shows "latest_version db q v"
proof -
  let ?vs = "map QuestionVersion_version
               (filter (\<lambda>w. QuestionVersion_question_id w = q) (question_versions db))"
  from assms have m: "sql_max ?vs = Some v" by (simp add: max_version_def)
  from sql_max_in [OF m] have "\<exists>w \<in> set (question_versions db).
         QuestionVersion_question_id w = q \<and> QuestionVersion_version w = v"
    by auto
  moreover have "QuestionVersion_version w \<le> v"
    if "w \<in> set (question_versions db)" "QuestionVersion_question_id w = q" for w
    using that by (intro sql_max_ge [OF m]) auto
  ultimately show ?thesis by (auto simp: latest_version_def)
qed

lemma max_version_frame [simp]:
  "max_version q (db\<lparr>attempt_questions := x\<rparr>) = max_version q db"
  "max_version q (db\<lparr>answers := y\<rparr>) = max_version q db"
  "max_version q (db\<lparr>attempts := z\<rparr>) = max_version q db"
  by (simp_all add: max_version_def)

lemma pin_questions_success:
  "pin_questions i rows s = (Inr u, s') \<Longrightarrow>
     \<exists>aqs ans. working s' = (working s)\<lparr>attempt_questions := attempt_questions (working s) @ aqs,
                                        answers := answers (working s) @ ans\<rparr>
       \<and> list_all2 (pins (working s) i) rows aqs
       \<and> list_all2 (blank_answer (working s) i) rows ans"
proof (induction rows arbitrary: s)
  case Nil
  then show ?case by (simp add: ok_def)
next
  case (Cons row rows)
  obtain q p where row: "row = (q, p)" by (cases row)
  from Cons.prems obtain ver s1 s2 where
    ver: "max_version q (working s) = Some ver"
    and s1: "add_AttemptQuestion \<lparr>AttemptQuestion_attempt_id = i, AttemptQuestion_question_id = q,
               AttemptQuestion_question_version = ver, AttemptQuestion_position = p\<rparr> s = (Inr (), s1)"
    and s2: "add_Answer i q ver (- 1) s1 = (Inr (), s2)"
    and rest: "pin_questions i rows s2 = (Inr u, s')"
    unfolding row
    by (auto simp: andthen_Inr query_eq http_error_eq split: option.splits)
  let ?aq = "\<lparr>AttemptQuestion_attempt_id = i, AttemptQuestion_question_id = q,
               AttemptQuestion_question_version = ver, AttemptQuestion_position = p\<rparr>"
  let ?a = "\<lparr>Answer_id = next_id (map Answer_id (answers (working s))), Answer_attempt_id = i,
              Answer_question_id = q, Answer_question_version = ver, Answer_answer_index = - 1\<rparr>"
  have w2: "working s2 = (working s)\<lparr>attempt_questions := attempt_questions (working s) @ [?aq],
                                     answers := answers (working s) @ [?a]\<rparr>"
    using s1 s2 by (auto simp: add_AttemptQuestion_def add_Answer_def statement_Inr)
  from Cons.IH [OF rest] obtain aqs ans where
    w': "working s' = (working s2)\<lparr>attempt_questions := attempt_questions (working s2) @ aqs,
                                    answers := answers (working s2) @ ans\<rparr>"
    and p: "list_all2 (pins (working s2) i) rows aqs"
    and b: "list_all2 (blank_answer (working s2) i) rows ans"
    by blast
  have same: "pins (working s2) i = pins (working s) i" "blank_answer (working s2) i = blank_answer (working s) i"
    by (simp_all add: fun_eq_iff pins_def blank_answer_def latest_version_def w2)
  have "working s' = (working s)\<lparr>attempt_questions := attempt_questions (working s) @ ?aq # aqs,
                                   answers := answers (working s) @ ?a # ans\<rparr>"
    by (simp add: w' w2)
  moreover have "list_all2 (pins (working s) i) (row # rows) (?aq # aqs)"
    using p max_version_latest [OF ver] by (simp add: same row pins_def)
  moreover have "list_all2 (blank_answer (working s) i) (row # rows) (?a # ans)"
    using b max_version_latest [OF ver] by (simp add: same row blank_answer_def)
  ultimately show ?case by blast
qed

lemma add_Attempt_Inr:
  "(add_Attempt t u st s = (Inr i, s')) =
     (i = next_id (map Attempt_id (attempts (working s)))
      \<and> Attempt_constraints ((working s)\<lparr>attempts := attempts (working s) @
            [\<lparr>Attempt_id = i, Attempt_test_id = t, Attempt_user_id = u, Attempt_status = st\<rparr>]\<rparr>)
      \<and> s' = s\<lparr>working := (working s)\<lparr>attempts := attempts (working s) @
            [\<lparr>Attempt_id = i, Attempt_test_id = t, Attempt_user_id = u, Attempt_status = st\<rparr>]\<rparr>\<rparr>)"
  by (auto simp: add_Attempt_def andthen_Inr query_eq statement_Inr ok_eq)

lemma steady_add_Attempt: "steady (add_Attempt t u st)"
  unfolding add_Attempt_def by (intro steady_andthen steady_basic)

lemma steady_pin_questions: "steady (pin_questions i rows)"
proof (induction rows)
  case Nil
  show ?case by (simp add: steady_basic)
next
  case (Cons row rows)
  obtain q p where row: "row = (q, p)" by (cases row)
  show ?case
    unfolding row pin_questions.simps add_AttemptQuestion_def add_Answer_def
    by (intro steady_andthen steady_option steady_basic Cons.IH)
qed

lemma quiet_attempt_create: "quiet (attempt_create test_id cur)"
  unfolding attempt_create_def
  by (intro quiet_andthen quiet_option quiet_if quiet_commit_ok steady_quiet
      steady_basic steady_add_Attempt steady_pin_questions)

lemma attempt_create_error_committed:
  assumes "attempt_create test_id cur s = (Inl e, s')"
  shows "committed s' = committed s"
  using assms quiet_attempt_create by (simp add: quiet_def)

lemma ordered_test_questions_frame [simp]:
  "ordered_test_questions t (db\<lparr>attempts := z\<rparr>) = ordered_test_questions t db"
  by (simp add: ordered_test_questions_def)

lemma attempt_create_created:
  assumes none: "filter (\<lambda>a. Attempt_test_id a = test_id \<and> Attempt_user_id a = user_id cur) (attempts db) = []"
    and run: "attempt_create test_id cur (fresh db) = (Inr i, s')"
  shows "\<exists>aqs ans.
           s' = fresh (db\<lparr>attempts := attempts db @
                            [\<lparr>Attempt_id = i, Attempt_test_id = test_id,
                              Attempt_user_id = user_id cur, Attempt_status = ''in_progress''\<rparr>],
                          attempt_questions := attempt_questions db @ aqs,
                          answers := answers db @ ans\<rparr>)
           \<and> ordered_test_questions test_id db \<noteq> []
           \<and> list_all2 (pins db i) (ordered_test_questions test_id db) aqs
           \<and> list_all2 (blank_answer db i) (ordered_test_questions test_id db) ans"
proof -
  let ?att = "\<lparr>Attempt_id = i, Attempt_test_id = test_id,
               Attempt_user_id = user_id cur, Attempt_status = ''in_progress''\<rparr>"
  let ?s1 = "(fresh db)\<lparr>working := db\<lparr>attempts := attempts db @ [?att]\<rparr>\<rparr>"
  from run none obtain s2 where
    rows: "ordered_test_questions test_id db \<noteq> []"
    and pin: "pin_questions i (ordered_test_questions test_id db) ?s1 = (Inr (), s2)"
    and s': "s' = s2\<lparr>committed := working s2\<rparr>"
    by (auto simp: attempt_create_def andthen_Inr scalar_one_or_none_eq http_error_eq
        query_eq ok_eq commit_eq add_Attempt_Inr fresh_def
        split: option.splits if_splits list.splits)
  from pin_questions_success [OF pin] obtain aqs ans where
    w: "working s2 = (working ?s1)\<lparr>attempt_questions := attempt_questions (working ?s1) @ aqs,
                                    answers := answers (working ?s1) @ ans\<rparr>"
    and p: "list_all2 (pins (working ?s1) i) (ordered_test_questions test_id db) aqs"
    and b: "list_all2 (blank_answer (working ?s1) i) (ordered_test_questions test_id db) ans"
    by blast
  have same: "pins (working ?s1) i = pins db i" "blank_answer (working ?s1) i = blank_answer db i"
    by (simp_all add: fun_eq_iff pins_def blank_answer_def latest_version_def)
  have "s' = fresh (db\<lparr>attempts := attempts db @ [?att],
                        attempt_questions := attempt_questions db @ aqs,
                        answers := answers db @ ans\<rparr>)"
    by (simp add: s' w fresh_def)
  with rows p b show ?thesis unfolding same by blast
qed

lemma max_version_None:
  "(max_version q db = None) = (filter (\<lambda>v. QuestionVersion_question_id v = q) (question_versions db) = [])"
  by (cases "filter (\<lambda>v. QuestionVersion_question_id v = q) (question_versions db)")
     (simp_all add: max_version_def)

lemma set_ordered_test_questions:
  "set (ordered_test_questions t db) =
     (\<lambda>r. (TestQuestion_question_id r, TestQuestion_position r)) `
        {r \<in> set (test_questions db). TestQuestion_test_id r = t}"
  by (auto simp: ordered_test_questions_def)

lemma attempt_create_existing:
  assumes "filter (\<lambda>a. Attempt_test_id a = test_id \<and> Attempt_user_id a = user_id cur) (attempts (working s)) = [e]"
  shows "attempt_create test_id cur s =
           (case filter (\<lambda>t. Test_id t = test_id \<and> \<not> Test_is_deleted t) (tests (working s)) of
              [] \<Rightarrow> (Inl (HTTPException 404 ''Not found'' None), s)
            | [test] \<Rightarrow> if Test_is_active test then (Inr (Attempt_id e), s)
                        else (Inl (HTTPException 400 ''Bad Request'' (Some (''message'', ''Test is not active''))), s)
            | _ \<Rightarrow> (Inl MultipleResultsFound, s))"
  using assms
  by (auto simp: attempt_create_def andthen_def scalar_one_or_none_def http_error_def raise_def
      ok_def split: list.splits)

lemma attempt_create_Inr_test:
  assumes run: "attempt_create test_id cur s = (Inr i, s')"
  shows "\<exists>test. filter (\<lambda>t. Test_id t = test_id \<and> \<not> Test_is_deleted t) (tests (working s)) = [test]
               \<and> Test_is_active test"
proof (cases "filter (\<lambda>t. Test_id t = test_id \<and> \<not> Test_is_deleted t) (tests (working s))")
  case Nil
  with run show ?thesis
    by (simp add: attempt_create_def andthen_def scalar_one_or_none_def http_error_def raise_def)
next
  case (Cons t ts)
  show ?thesis
  proof (cases ts)
    case Nil
    with Cons run show ?thesis
      by (cases "Test_is_active t")
         (simp_all add: attempt_create_def andthen_def scalar_one_or_none_def http_error_def raise_def)
  next
    case (Cons t2 ts2)
    with \<open>filter _ _ = t # ts\<close> run show ?thesis
      by (simp add: attempt_create_def andthen_def scalar_one_or_none_def)
  qed
qed

lemma attempt_create_Inr_existing:
  assumes run: "attempt_create test_id cur s = (Inr i, s')"
  shows "filter (\<lambda>a. Attempt_test_id a = test_id \<and> Attempt_user_id a = user_id cur) (attempts (working s)) = []
       \<or> (\<exists>e. filter (\<lambda>a. Attempt_test_id a = test_id \<and> Attempt_user_id a = user_id cur) (attempts (working s)) = [e])"
proof (cases "filter (\<lambda>a. Attempt_test_id a = test_id \<and> Attempt_user_id a = user_id cur) (attempts (working s))")
  case Nil
  then show ?thesis by simp
next
  case (Cons e es)
  show ?thesis
  proof (cases es)
    case Nil
    with Cons show ?thesis by simp
  next
    case (Cons e2 es2)
    from attempt_create_Inr_test [OF run] obtain test where
      "filter (\<lambda>t. Test_id t = test_id \<and> \<not> Test_is_deleted t) (tests (working s)) = [test]"
      "Test_is_active test"
      by blast
    with Cons \<open>filter _ _ = e # es\<close> run show ?thesis
      by (simp add: attempt_create_def andthen_def scalar_one_or_none_def)
  qed
qed

lemma eval_create:
  "run_request (attempt_create 1 \<lparr>user_id = 20, permissions = {}\<rparr>) composition_example = (Inr 1, created_example)"
  by (simp add: run_request_def attempt_create_def andthen_def scalar_one_or_none_def http_error_def raise_def
      ok_def query_def add_Attempt_def statement_def next_id_def Attempt_constraints_def
      ordered_test_questions_def commit_def add_AttemptQuestion_def add_Answer_def max_version_def
      AttemptQuestion_constraints_def Answer_constraints_def int4_def qv_key_def
      composition_example_def grading_example_def created_example_def)

lemma eval_gapped:
  "run_request (attempt_create 1 \<lparr>user_id = 20, permissions = {}\<rparr>) gapped_example
     = (Inr 1, gapped_created_example)"
  by (simp add: run_request_def attempt_create_def andthen_def scalar_one_or_none_def http_error_def raise_def
      ok_def query_def add_Attempt_def statement_def next_id_def Attempt_constraints_def
      ordered_test_questions_def commit_def add_AttemptQuestion_def add_Answer_def max_version_def
      AttemptQuestion_constraints_def Answer_constraints_def int4_def qv_key_def
      gapped_example_def gapped_created_example_def)

lemma eval_unversioned:
  "run_request (attempt_create 1 \<lparr>user_id = 20, permissions = {}\<rparr>) unversioned_example
     = (Inl (HTTPException 400 ''Bad Request'' (Some (''message'', ''Question 4 has no versions''))),
        unversioned_example)"
  by (simp add: run_request_def attempt_create_def andthen_def scalar_one_or_none_def http_error_def raise_def
      ok_def query_def add_Attempt_def statement_def next_id_def Attempt_constraints_def
      ordered_test_questions_def commit_def add_AttemptQuestion_def add_Answer_def max_version_def
      AttemptQuestion_constraints_def Answer_constraints_def int4_def qv_key_def str_int_def
      unversioned_example_def composition_example_def grading_example_def)

text \<open>
  C8. \<^verbatim>\<open>attempt_create\<close> is atomic. Whatever exception ends the request, the committed
  database is the one the request started from: no Attempt, AttemptQuestion or Answer
  row is persisted. When the user has no attempt on the test yet, the request ends in an
  exception if the test has no questions or one of its questions has no QuestionVersion;
  and when it succeeds with id \<open>i\<close>, the committed database is the old one with the
  Attempt \<open>i\<close> (in_progress) and, for the rows of \<^verbatim>\<open>test_questions\<close> of the test taken in
  the order of their positions, one AttemptQuestion each, with the row's question and
  the row's own position, pinning the greatest version \<^verbatim>\<open>question_versions\<close> holds of
  that question, and one Answer each for the same question and version with
  answer_index -1; nothing else changes.
\<close>

theorem attempt_create_atomic:
  assumes run: "run_request (attempt_create test_id cur) db = (r, db')"
  shows "(\<forall>e. r = Inl e \<longrightarrow> db' = db)
       \<and> (filter (\<lambda>a. Attempt_test_id a = test_id \<and> Attempt_user_id a = user_id cur) (attempts db) = []
            \<longrightarrow>
            ((filter (\<lambda>q. TestQuestion_test_id q = test_id) (test_questions db) = []
               \<or> (\<exists>q \<in> set (test_questions db). TestQuestion_test_id q = test_id
                      \<and> filter (\<lambda>v. QuestionVersion_question_id v = TestQuestion_question_id q)
                            (question_versions db) = [])
               \<longrightarrow> (\<exists>e. r = Inl e))
             \<and> (\<forall>i. r = Inr i \<longrightarrow>
                   (\<exists>rows aqs ans.
                      mset rows = mset (filter (\<lambda>q. TestQuestion_test_id q = test_id) (test_questions db))
                      \<and> sorted (map TestQuestion_position rows)
                      \<and> db' = db\<lparr>attempts := attempts db @
                                   [\<lparr>Attempt_id = i, Attempt_test_id = test_id,
                                     Attempt_user_id = user_id cur, Attempt_status = ''in_progress''\<rparr>],
                                attempt_questions := attempt_questions db @ aqs,
                                answers := answers db @ ans\<rparr>
                      \<and> list_all2 (\<lambda>q. pins db i (TestQuestion_question_id q, TestQuestion_position q)) rows aqs
                      \<and> list_all2 (\<lambda>q. blank_answer db i (TestQuestion_question_id q, TestQuestion_position q)) rows ans))))"
proof -
  obtain s' where s': "attempt_create test_id cur (fresh db) = (r, s')" and db': "db' = committed s'"
    using run by (auto simp: run_request_fresh split: prod.splits)
  have atomic: "db' = db" if "r = Inl e" for e
    using attempt_create_error_committed [of test_id cur "fresh db" e s'] s' that db'
    by (simp add: fresh_def)
  let ?rows = "sort_key TestQuestion_position
                 (filter (\<lambda>q. TestQuestion_test_id q = test_id) (test_questions db))"
  have created: "\<exists>aqs ans.
           db' = db\<lparr>attempts := attempts db @
                            [\<lparr>Attempt_id = i, Attempt_test_id = test_id,
                              Attempt_user_id = user_id cur, Attempt_status = ''in_progress''\<rparr>],
                          attempt_questions := attempt_questions db @ aqs,
                          answers := answers db @ ans\<rparr>
           \<and> ?rows \<noteq> []
           \<and> list_all2 (\<lambda>q. pins db i (TestQuestion_question_id q, TestQuestion_position q)) ?rows aqs
           \<and> list_all2 (\<lambda>q. blank_answer db i (TestQuestion_question_id q, TestQuestion_position q)) ?rows ans"
    if "filter (\<lambda>a. Attempt_test_id a = test_id \<and> Attempt_user_id a = user_id cur) (attempts db) = []"
      and "r = Inr i" for i
  proof -
    from attempt_create_created [OF that(1), of i s'] s' that(2) obtain aqs ans where
      st: "s' = fresh (db\<lparr>attempts := attempts db @
                            [\<lparr>Attempt_id = i, Attempt_test_id = test_id,
                              Attempt_user_id = user_id cur, Attempt_status = ''in_progress''\<rparr>],
                          attempt_questions := attempt_questions db @ aqs,
                          answers := answers db @ ans\<rparr>)"
      and ne: "ordered_test_questions test_id db \<noteq> []"
      and p: "list_all2 (pins db i) (ordered_test_questions test_id db) aqs"
      and b: "list_all2 (blank_answer db i) (ordered_test_questions test_id db) ans"
      by blast
    have "db' = db\<lparr>attempts := attempts db @
                            [\<lparr>Attempt_id = i, Attempt_test_id = test_id,
                              Attempt_user_id = user_id cur, Attempt_status = ''in_progress''\<rparr>],
                          attempt_questions := attempt_questions db @ aqs,
                          answers := answers db @ ans\<rparr>"
      unfolding db' st by (simp add: fresh_def)
    moreover from ne have "?rows \<noteq> []"
      by (simp add: ordered_test_questions_def)
    moreover from p have "list_all2 (\<lambda>q. pins db i (TestQuestion_question_id q, TestQuestion_position q)) ?rows aqs"
      by (simp add: ordered_test_questions_def list_all2_map1)
    moreover from b have "list_all2 (\<lambda>q. blank_answer db i (TestQuestion_question_id q, TestQuestion_position q)) ?rows ans"
      by (simp add: ordered_test_questions_def list_all2_map1)
    ultimately show ?thesis by blast
  qed
  have snapshot: "\<exists>rows aqs ans.
           mset rows = mset (filter (\<lambda>q. TestQuestion_test_id q = test_id) (test_questions db))
           \<and> sorted (map TestQuestion_position rows)
           \<and> db' = db\<lparr>attempts := attempts db @
                        [\<lparr>Attempt_id = i, Attempt_test_id = test_id,
                          Attempt_user_id = user_id cur, Attempt_status = ''in_progress''\<rparr>],
                     attempt_questions := attempt_questions db @ aqs,
                     answers := answers db @ ans\<rparr>
           \<and> list_all2 (\<lambda>q. pins db i (TestQuestion_question_id q, TestQuestion_position q)) rows aqs
           \<and> list_all2 (\<lambda>q. blank_answer db i (TestQuestion_question_id q, TestQuestion_position q)) rows ans"
    if "filter (\<lambda>a. Attempt_test_id a = test_id \<and> Attempt_user_id a = user_id cur) (attempts db) = []"
      and "r = Inr i" for i
  proof -
    from created [OF that] obtain aqs ans where
      "db' = db\<lparr>attempts := attempts db @
                            [\<lparr>Attempt_id = i, Attempt_test_id = test_id,
                              Attempt_user_id = user_id cur, Attempt_status = ''in_progress''\<rparr>],
                          attempt_questions := attempt_questions db @ aqs,
                          answers := answers db @ ans\<rparr>"
      "list_all2 (\<lambda>q. pins db i (TestQuestion_question_id q, TestQuestion_position q)) ?rows aqs"
      "list_all2 (\<lambda>q. blank_answer db i (TestQuestion_question_id q, TestQuestion_position q)) ?rows ans"
      by blast
    moreover have "mset ?rows = mset (filter (\<lambda>q. TestQuestion_test_id q = test_id) (test_questions db))"
      by simp
    moreover have "sorted (map TestQuestion_position ?rows)"
      by (rule sorted_sort_key)
    ultimately show ?thesis by blast
  qed
  have fails: "\<exists>e. r = Inl e"
    if none: "filter (\<lambda>a. Attempt_test_id a = test_id \<and> Attempt_user_id a = user_id cur) (attempts db) = []"
      and bad: "filter (\<lambda>q. TestQuestion_test_id q = test_id) (test_questions db) = []
               \<or> (\<exists>q \<in> set (test_questions db). TestQuestion_test_id q = test_id
                      \<and> filter (\<lambda>v. QuestionVersion_question_id v = TestQuestion_question_id q)
                            (question_versions db) = [])"
  proof (cases r)
    case (Inl e)
    then show ?thesis by blast
  next
    case (Inr i)
    from created [OF none Inr] obtain aqs where
      ne: "?rows \<noteq> []"
      and p: "list_all2 (\<lambda>q. pins db i (TestQuestion_question_id q, TestQuestion_position q)) ?rows aqs"
      by blast
    from ne have "filter (\<lambda>q. TestQuestion_test_id q = test_id) (test_questions db) \<noteq> []"
      by auto
    with bad obtain q where q: "q \<in> set (test_questions db)" "TestQuestion_test_id q = test_id"
      "filter (\<lambda>v. QuestionVersion_question_id v = TestQuestion_question_id q) (question_versions db) = []"
      by auto
    then have "q \<in> set ?rows" by simp
    then obtain n where n: "n < length ?rows" "?rows ! n = q"
      by (auto simp only: in_set_conv_nth)
    from list_all2_nthD [OF p n(1)] n(2)
    have "pins db i (TestQuestion_question_id q, TestQuestion_position q) (aqs ! n)"
      by simp
    then have "\<exists>w \<in> set (question_versions db). QuestionVersion_question_id w = TestQuestion_question_id q"
      by (auto simp: pins_def latest_version_def)
    with q(3) show ?thesis by (auto simp: filter_empty_conv)
  qed
  from atomic snapshot fails show ?thesis by blast
qed

text \<open>
  User 20 starts test 1 of the gapped example: attempt 1 pins question 1 at position 0
  with version 2, question 2 at position 2 with version 2 and question 3 at position 5
  with version 1, in that order, with three blank answers; test 2 contributes nothing.
  With question 4 of the composition example left without versions the request fails
  and the database stays as it was.
\<close>

theorem attempt_create_atomic_witness:
  "run_request (attempt_create 1 \<lparr>user_id = 20, permissions = {}\<rparr>) gapped_example
     = (Inr 1, gapped_created_example)
   \<and> (\<exists>rows aqs ans.
       mset rows = mset (filter (\<lambda>q. TestQuestion_test_id q = 1) (test_questions gapped_example))
       \<and> sorted (map TestQuestion_position rows)
       \<and> gapped_created_example = gapped_example\<lparr>attempts := attempts gapped_example @
                    [\<lparr>Attempt_id = 1, Attempt_test_id = 1,
                      Attempt_user_id = 20, Attempt_status = ''in_progress''\<rparr>],
                 attempt_questions := attempt_questions gapped_example @ aqs,
                 answers := answers gapped_example @ ans\<rparr>
       \<and> list_all2 (\<lambda>q. pins gapped_example 1 (TestQuestion_question_id q, TestQuestion_position q)) rows aqs
       \<and> list_all2 (\<lambda>q. blank_answer gapped_example 1 (TestQuestion_question_id q, TestQuestion_position q)) rows ans)
   \<and> run_request (attempt_create 1 \<lparr>user_id = 20, permissions = {}\<rparr>) unversioned_example
     = (Inl (HTTPException 400 ''Bad Request'' (Some (''message'', ''Question 4 has no versions''))),
        unversioned_example)"
proof -
  have none: "filter (\<lambda>a. Attempt_test_id a = 1 \<and> Attempt_user_id a = user_id \<lparr>user_id = 20, permissions = {}\<rparr>)
                (attempts gapped_example) = []"
    by (simp add: gapped_example_def)
  from attempt_create_atomic [OF eval_gapped] none
  have "\<exists>rows aqs ans.
       mset rows = mset (filter (\<lambda>q. TestQuestion_test_id q = 1) (test_questions gapped_example))
       \<and> sorted (map TestQuestion_position rows)
       \<and> gapped_created_example = gapped_example\<lparr>attempts := attempts gapped_example @
                    [\<lparr>Attempt_id = 1, Attempt_test_id = 1,
                      Attempt_user_id = 20, Attempt_status = ''in_progress''\<rparr>],
                 attempt_questions := attempt_questions gapped_example @ aqs,
                 answers := answers gapped_example @ ans\<rparr>
       \<and> list_all2 (\<lambda>q. pins gapped_example 1 (TestQuestion_question_id q, TestQuestion_position q)) rows aqs
       \<and> list_all2 (\<lambda>q. blank_answer gapped_example 1 (TestQuestion_question_id q, TestQuestion_position q)) rows ans"
    by simp
  with eval_gapped eval_unversioned show ?thesis by blast
qed

text \<open>
  Right after a successful \<^verbatim>\<open>attempt_create\<close> the same call succeeds again with the same
  id and writes nothing, and the user has exactly one attempt on the test.
\<close>

lemma attempt_create_again:
  assumes first: "run_request (attempt_create test_id cur) db = (Inr i, db1)"
  shows "run_request (attempt_create test_id cur) db1 = (Inr i, db1)
       \<and> (\<exists>e. filter (\<lambda>a. Attempt_test_id a = test_id \<and> Attempt_user_id a = user_id cur) (attempts db1) = [e]
               \<and> Attempt_id e = i)"
proof -
  obtain s' where s': "attempt_create test_id cur (fresh db) = (Inr i, s')" and db1: "db1 = committed s'"
    using first by (auto simp: run_request_fresh split: prod.splits)
  from attempt_create_Inr_test [OF s'] obtain test where
    test: "filter (\<lambda>t. Test_id t = test_id \<and> \<not> Test_is_deleted t) (tests db) = [test]"
    and active: "Test_is_active test"
    by (auto simp: fresh_def)
  let ?mine = "\<lambda>a. Attempt_test_id a = test_id \<and> Attempt_user_id a = user_id cur"
  have "\<exists>e. filter ?mine (attempts db1) = [e] \<and> Attempt_id e = i
            \<and> filter (\<lambda>t. Test_id t = test_id \<and> \<not> Test_is_deleted t) (tests db1) = [test]"
  proof (cases "filter ?mine (attempts db) = []")
    case True
    from attempt_create_created [OF True s'] obtain aqs ans where
      "s' = fresh (db\<lparr>attempts := attempts db @
                            [\<lparr>Attempt_id = i, Attempt_test_id = test_id,
                              Attempt_user_id = user_id cur, Attempt_status = ''in_progress''\<rparr>],
                          attempt_questions := attempt_questions db @ aqs,
                          answers := answers db @ ans\<rparr>)"
      by blast
    then have "db1 = db\<lparr>attempts := attempts db @
                            [\<lparr>Attempt_id = i, Attempt_test_id = test_id,
                              Attempt_user_id = user_id cur, Attempt_status = ''in_progress''\<rparr>],
                          attempt_questions := attempt_questions db @ aqs,
                          answers := answers db @ ans\<rparr>"
      by (simp add: db1 fresh_def)
    with True test show ?thesis by simp
  next
    case False
    with attempt_create_Inr_existing [OF s'] obtain e where
      e: "filter ?mine (attempts db) = [e]"
      by (auto simp: fresh_def)
    with attempt_create_existing [of test_id cur "fresh db" e] test active s'
    have "i = Attempt_id e" "s' = fresh db"
      by (simp_all add: fresh_def)
    with e test db1 show ?thesis by (simp add: fresh_def)
  qed
  then obtain e where e: "filter ?mine (attempts db1) = [e]" "Attempt_id e = i"
    and t1: "filter (\<lambda>t. Test_id t = test_id \<and> \<not> Test_is_deleted t) (tests db1) = [test]"
    by blast
  have "attempt_create test_id cur (fresh db1) = (Inr i, fresh db1)"
    using attempt_create_existing [of test_id cur "fresh db1" e] e t1 active
    by (simp add: fresh_def)
  then have "run_request (attempt_create test_id cur) db1 = (Inr i, db1)"
    by (simp add: run_request_fresh fresh_def)
  with e show ?thesis by blast
qed

text \<open>
  C4, as the code has it. If an attempt for the test and the user already exists and the
  test is still found (it exists and is not soft-deleted) and is active, then
  \<^verbatim>\<open>attempt_create\<close> by that user succeeds, returns the id of that attempt and returns the
  session as it was opened; so a second call made on the database a successful first
  call left returns the id the first call returned.
\<close>

theorem attempt_create_idempotent:
  "(\<forall>e test. filter (\<lambda>a. Attempt_test_id a = test_id \<and> Attempt_user_id a = user_id cur) (attempts db) = [e]
        \<and> filter (\<lambda>t. Test_id t = test_id \<and> \<not> Test_is_deleted t) (tests db) = [test]
        \<and> Test_is_active test
        \<longrightarrow> attempt_create test_id cur (fresh db) = (Inr (Attempt_id e), fresh db)
            \<and> run_request (attempt_create test_id cur) db = (Inr (Attempt_id e), db))
   \<and> (\<forall>i db1. run_request (attempt_create test_id cur) db = (Inr i, db1)
        \<longrightarrow> run_request (attempt_create test_id cur) db1 = (Inr i, db1)
            \<and> (\<exists>e. filter (\<lambda>a. Attempt_test_id a = test_id \<and> Attempt_user_id a = user_id cur) (attempts db1) = [e]
                    \<and> Attempt_id e = i))"
proof -
  have returned: "attempt_create test_id cur (fresh db) = (Inr (Attempt_id e), fresh db)
        \<and> run_request (attempt_create test_id cur) db = (Inr (Attempt_id e), db)"
    if "filter (\<lambda>a. Attempt_test_id a = test_id \<and> Attempt_user_id a = user_id cur) (attempts db) = [e]"
      "filter (\<lambda>t. Test_id t = test_id \<and> \<not> Test_is_deleted t) (tests db) = [test]"
      "Test_is_active test" for e test
    using attempt_create_existing [of test_id cur "fresh db" e] that
    by (simp add: run_request_fresh fresh_sel)
  from returned attempt_create_again show ?thesis by blast
qed

text \<open>
  User 20 has attempt 7 on the active test 1 of the graded example and gets 7; on the
  composition example the first call creates attempt 1 and the second returns 1.
\<close>

theorem attempt_create_idempotent_witness:
  "run_request (attempt_create 1 \<lparr>user_id = 20, permissions = {}\<rparr>) grading_example
     = (Inr 7, grading_example)
   \<and> run_request (attempt_create 1 \<lparr>user_id = 20, permissions = {}\<rparr>) composition_example
     = (Inr 1, created_example)
   \<and> run_request (attempt_create 1 \<lparr>user_id = 20, permissions = {}\<rparr>) created_example
     = (Inr 1, created_example)"
proof -
  have pre: "filter (\<lambda>a. Attempt_test_id a = 1 \<and> Attempt_user_id a = user_id \<lparr>user_id = 20, permissions = {}\<rparr>)
               (attempts grading_example)
             = [\<lparr>Attempt_id = 7, Attempt_test_id = 1, Attempt_user_id = 20, Attempt_status = ''finished''\<rparr>]"
    "filter (\<lambda>t. Test_id t = 1 \<and> \<not> Test_is_deleted t) (tests grading_example)
             = [\<lparr>Test_id = 1, Test_course_id = 1, Test_name = ''t'', Test_author_id = 10,
                 Test_is_active = True, Test_is_deleted = False\<rparr>]"
    by (simp_all add: grading_example_def)
  from attempt_create_idempotent [of 1 "\<lparr>user_id = 20, permissions = {}\<rparr>" grading_example] pre
  have "run_request (attempt_create 1 \<lparr>user_id = 20, permissions = {}\<rparr>) grading_example
     = (Inr 7, grading_example)"
    by simp
  moreover from attempt_create_idempotent [of 1 "\<lparr>user_id = 20, permissions = {}\<rparr>" composition_example]
    eval_create
  have "run_request (attempt_create 1 \<lparr>user_id = 20, permissions = {}\<rparr>) created_example
     = (Inr 1, created_example)"
    by blast
  ultimately show ?thesis using eval_create by simp
qed

text \<open>
  C4 as stated fails: after user 20 created attempt 1 on test 1 the test is deactivated;
  the attempt for (test 1, user 20) exists, and the second \<^verbatim>\<open>attempt_create\<close> is refused
  with 400 "Test is not active" instead of returning attempt 1.
\<close>

theorem attempt_create_refused_after_deactivation:
  "run_request (attempt_create 1 \<lparr>user_id = 20, permissions = {}\<rparr>) composition_example
     = (Inr 1, created_example)
   \<and> map Attempt_id (filter (\<lambda>a. Attempt_test_id a = 1 \<and> Attempt_user_id a = 20)
                       (attempts deactivated_example)) = [1]
   \<and> run_request (attempt_create 1 \<lparr>user_id = 20, permissions = {}\<rparr>) deactivated_example
     = (Inl (HTTPException 400 ''Bad Request'' (Some (''message'', ''Test is not active''))),
        deactivated_example)"
proof -
  have "run_request (attempt_create 1 \<lparr>user_id = 20, permissions = {}\<rparr>) deactivated_example
     = (Inl (HTTPException 400 ''Bad Request'' (Some (''message'', ''Test is not active''))),
        deactivated_example)"
    by (simp add: run_request_def attempt_create_def andthen_def scalar_one_or_none_def
        http_error_def raise_def deactivated_example_def created_example_def
        composition_example_def grading_example_def)
  moreover have "map Attempt_id (filter (\<lambda>a. Attempt_test_id a = 1 \<and> Attempt_user_id a = 20)
                       (attempts deactivated_example)) = [1]"
    by (simp add: deactivated_example_def created_example_def)
  ultimately show ?thesis using eval_create by simp
qed

text \<open>
  C10. When the user already has an attempt on the test, \<^verbatim>\<open>attempt_create\<close> returns the
  existing attempt's id, writing nothing, exactly when the test is still found (it
  exists and is not soft-deleted) and is active; a test that is missing or soft-deleted
  gives 404 "Not found" and a deactivated test gives 400 "Test is not active", because
  both checks run before the lookup of the existing attempt.
\<close>

theorem attempt_create_existing_attempt:
  assumes "filter (\<lambda>a. Attempt_test_id a = test_id \<and> Attempt_user_id a = user_id cur) (attempts db) = [e]"
  shows "((attempt_create test_id cur (fresh db) = (Inr (Attempt_id e), fresh db))
            = (\<exists>test. filter (\<lambda>t. Test_id t = test_id \<and> \<not> Test_is_deleted t) (tests db) = [test]
                      \<and> Test_is_active test))
       \<and> (filter (\<lambda>t. Test_id t = test_id \<and> \<not> Test_is_deleted t) (tests db) = []
            \<longrightarrow> attempt_create test_id cur (fresh db) = (Inl (HTTPException 404 ''Not found'' None), fresh db))
       \<and> (\<forall>test. filter (\<lambda>t. Test_id t = test_id \<and> \<not> Test_is_deleted t) (tests db) = [test]
                   \<and> \<not> Test_is_active test
            \<longrightarrow> attempt_create test_id cur (fresh db)
                  = (Inl (HTTPException 400 ''Bad Request'' (Some (''message'', ''Test is not active''))), fresh db))"
  using assms
  by (auto simp: attempt_create_def andthen_def scalar_one_or_none_def http_error_def raise_def
      ok_def fresh_def split: list.splits)

text \<open>
  User 20 has attempt 7 on test 1: it is returned while the test is active, and refused
  once the test is soft-deleted or deactivated.
\<close>

theorem attempt_create_existing_attempt_witness:
  "attempt_create 1 \<lparr>user_id = 20, permissions = {}\<rparr> (fresh grading_example) = (Inr 7, fresh grading_example)
   \<and> attempt_create 1 \<lparr>user_id = 20, permissions = {}\<rparr> (fresh deleted_example)
       = (Inl (HTTPException 404 ''Not found'' None), fresh deleted_example)
   \<and> attempt_create 1 \<lparr>user_id = 20, permissions = {}\<rparr> (fresh inactive_example)
       = (Inl (HTTPException 400 ''Bad Request'' (Some (''message'', ''Test is not active''))), fresh inactive_example)"
  using attempt_create_existing_attempt [of 1 "\<lparr>user_id = 20, permissions = {}\<rparr>" grading_example
          "\<lparr>Attempt_id = 7, Attempt_test_id = 1, Attempt_user_id = 20, Attempt_status = ''finished''\<rparr>"]
        attempt_create_existing_attempt [of 1 "\<lparr>user_id = 20, permissions = {}\<rparr>" deleted_example
          "\<lparr>Attempt_id = 7, Attempt_test_id = 1, Attempt_user_id = 20, Attempt_status = ''finished''\<rparr>"]
        attempt_create_existing_attempt [of 1 "\<lparr>user_id = 20, permissions = {}\<rparr>" inactive_example
          "\<lparr>Attempt_id = 7, Attempt_test_id = 1, Attempt_user_id = 20, Attempt_status = ''finished''\<rparr>"]
  by (simp add: grading_example_def deleted_example_def inactive_example_def)

subsection \<open>Writing answers\<close>

lemma get_attempt_or_404_found:
  "filter (\<lambda>a. Attempt_id a = attempt_id) (attempts (working s)) = [attempt]
   \<Longrightarrow> get_attempt_or_404 attempt_id s = (Inr attempt, s)"
  by (simp add: get_attempt_or_404_def andthen_def scalar_one_or_none_def ok_def)

lemma Answer_constraints_with_answer_index:
  assumes "Answer_constraints db" and "- 1 \<le> index" and "int4 index"
  shows "Answer_constraints (with_answer_index answer_id index db)"
proof -
  let ?upd = "\<lambda>a. if Answer_id a = answer_id then a\<lparr>Answer_answer_index := index\<rparr> else a"
  have keys: "map (Answer_id \<circ> ?upd) xs = map Answer_id xs"
    "map ((\<lambda>a. (Answer_attempt_id a, Answer_question_id a)) \<circ> ?upd) xs
       = map (\<lambda>a. (Answer_attempt_id a, Answer_question_id a)) xs" for xs
    by (induction xs) simp_all
  show ?thesis
    using assms
    by (auto simp: Answer_constraints_def with_answer_index_def keys)
qed

lemma answer_writes_found:
  assumes ans: "filter (\<lambda>a. Answer_id a = answer_id) (answers (working s)) = [ans]"
    and att: "filter (\<lambda>a. Attempt_id a = Answer_attempt_id ans) (attempts (working s)) = [attempt]"
  shows "answer_update answer_id index cur s =
           (if index < 0 then (Inl negative_index_error, s)
            else if Attempt_user_id attempt \<noteq> user_id cur then (Inl (HTTPException 403 ''Forbidden'' None), s)
            else if Attempt_status attempt \<noteq> ''in_progress'' then (Inl finished_error, s)
            else andthen (set_answer_index answer_id index) (\<lambda>_. andthen commit (\<lambda>_. ok ())) s)"
    and "answer_delete answer_id cur s =
           (if Attempt_user_id attempt \<noteq> user_id cur then (Inl (HTTPException 403 ''Forbidden'' None), s)
            else if Attempt_status attempt \<noteq> ''in_progress'' then (Inl finished_error, s)
            else andthen (set_answer_index answer_id (- 1)) (\<lambda>_. andthen commit (\<lambda>_. ok ())) s)"
proof -
  have id: "Answer_id ans = answer_id" using filter_singletonD [OF ans] by simp
  show "answer_update answer_id index cur s =
           (if index < 0 then (Inl negative_index_error, s)
            else if Attempt_user_id attempt \<noteq> user_id cur then (Inl (HTTPException 403 ''Forbidden'' None), s)
            else if Attempt_status attempt \<noteq> ''in_progress'' then (Inl finished_error, s)
            else andthen (set_answer_index answer_id index) (\<lambda>_. andthen commit (\<lambda>_. ok ())) s)"
    by (simp add: answer_update_def andthen_def scalar_one_or_none_def ans
        get_attempt_or_404_found [OF att] http_error_def raise_def
        negative_index_error_def finished_error_def id)
  show "answer_delete answer_id cur s =
           (if Attempt_user_id attempt \<noteq> user_id cur then (Inl (HTTPException 403 ''Forbidden'' None), s)
            else if Attempt_status attempt \<noteq> ''in_progress'' then (Inl finished_error, s)
            else andthen (set_answer_index answer_id (- 1)) (\<lambda>_. andthen commit (\<lambda>_. ok ())) s)"
    by (simp add: answer_delete_def andthen_def scalar_one_or_none_def ans
        get_attempt_or_404_found [OF att] http_error_def raise_def finished_error_def id)
qed

lemma store_answer_index:
  "andthen (set_answer_index answer_id index) (\<lambda>_. andthen commit ok) (fresh db) =
     (if Answer_constraints (with_answer_index answer_id index db)
      then (Inr (), fresh (with_answer_index answer_id index db))
      else (Inl DBAPIError, fresh db))"
  by (simp add: andthen_def set_answer_index_def statement_def commit_def ok_def fresh_def
      with_answer_index_def)

text \<open>
  C5. For an answer of a finished attempt, \<^verbatim>\<open>answer_update\<close> and \<^verbatim>\<open>answer_delete\<close> always end
  in an exception and return the session as it was opened, so the answer row is
  unchanged and the write is never silently dropped; for the attempt's owner (and, in
  \<^verbatim>\<open>answer_update\<close>, an index that passes the check \<open>index \<ge> 0\<close>) the exception is
  the state-conflict error 400 "Attempt already finished". While the attempt is
  in_progress, \<^verbatim>\<open>answer_delete\<close> by the owner succeeds and commits answer_index = -1
  for that answer and nothing else.
\<close>

theorem finished_attempt_rejects_answer_writes:
  assumes ans: "filter (\<lambda>a. Answer_id a = answer_id) (answers db) = [ans]"
    and att: "filter (\<lambda>a. Attempt_id a = Answer_attempt_id ans) (attempts db) = [attempt]"
  shows "(Attempt_status attempt = ''finished'' \<longrightarrow>
            (\<exists>e. answer_update answer_id index cur (fresh db) = (Inl e, fresh db))
          \<and> (\<exists>e. answer_delete answer_id cur (fresh db) = (Inl e, fresh db))
          \<and> (Attempt_user_id attempt = user_id cur \<longrightarrow>
                (0 \<le> index \<longrightarrow> answer_update answer_id index cur (fresh db) = (Inl finished_error, fresh db))
              \<and> answer_delete answer_id cur (fresh db) = (Inl finished_error, fresh db)))
       \<and> (Attempt_status attempt = ''in_progress'' \<and> Attempt_user_id attempt = user_id cur
            \<and> Answer_constraints db \<longrightarrow>
            run_request (answer_delete answer_id cur) db = (Inr (), with_answer_index answer_id (- 1) db))"
proof -
  have a: "filter (\<lambda>a. Answer_id a = answer_id) (answers (working (fresh db))) = [ans]"
    "filter (\<lambda>a. Attempt_id a = Answer_attempt_id ans) (attempts (working (fresh db))) = [attempt]"
    using ans att by (simp_all add: fresh_def)
  note w = answer_writes_found [OF a]
  have del: "run_request (answer_delete answer_id cur) db = (Inr (), with_answer_index answer_id (- 1) db)"
    if "Attempt_status attempt = ''in_progress''" "Attempt_user_id attempt = user_id cur"
      "Answer_constraints db"
    using that Answer_constraints_with_answer_index [of db "- 1" answer_id]
    by (simp add: run_request_fresh w store_answer_index int4_def fresh_sel)
  show ?thesis
    using del by (auto simp: w)
qed

text \<open>
  Attempt 7 of the graded example is finished: its owner's update and delete of answer 1
  are refused. In the answered example the owner's delete of answer 1 gives back the
  blank answer.
\<close>

theorem finished_attempt_rejects_answer_writes_witness:
  "answer_update 1 0 \<lparr>user_id = 20, permissions = {}\<rparr> (fresh grading_example)
     = (Inl finished_error, fresh grading_example)
   \<and> answer_delete 1 \<lparr>user_id = 20, permissions = {}\<rparr> (fresh grading_example)
     = (Inl finished_error, fresh grading_example)
   \<and> run_request (answer_delete 1 \<lparr>user_id = 20, permissions = {}\<rparr>) answered_example
     = (Inr (), created_example)"
  using finished_attempt_rejects_answer_writes [of 1 grading_example
      "\<lparr>Answer_id = 1, Answer_attempt_id = 7, Answer_question_id = 1,
        Answer_question_version = 1, Answer_answer_index = 1\<rparr>"
      "\<lparr>Attempt_id = 7, Attempt_test_id = 1, Attempt_user_id = 20, Attempt_status = ''finished''\<rparr>"
      0 "\<lparr>user_id = 20, permissions = {}\<rparr>"]
    finished_attempt_rejects_answer_writes [of 1 answered_example
      "\<lparr>Answer_id = 1, Answer_attempt_id = 1, Answer_question_id = 1,
        Answer_question_version = 1, Answer_answer_index = 2\<rparr>"
      "\<lparr>Attempt_id = 1, Attempt_test_id = 1, Attempt_user_id = 20, Attempt_status = ''in_progress''\<rparr>"
      0 "\<lparr>user_id = 20, permissions = {}\<rparr>"]
  by (simp add: grading_example_def answered_example_def created_example_def composition_example_def
      with_answer_index_def Answer_constraints_def int4_def qv_key_def)

text \<open>
  C6, as the code has it. For an answer of an in_progress attempt owned by the caller,
  \<^verbatim>\<open>answer_update\<close> fails with the validation error 400 "index must be >= 0 ..." for
  every negative index and writes nothing; every index from 0 up to the largest value
  of the 32-bit column is accepted and committed as the answer's answer_index, whatever
  the number of options of the pinned version; a larger index is refused by the store,
  not by a validation error, and nothing is written.
\<close>

theorem answer_update_index_range:
  assumes ans: "filter (\<lambda>a. Answer_id a = answer_id) (answers db) = [ans]"
    and att: "filter (\<lambda>a. Attempt_id a = Answer_attempt_id ans) (attempts db) = [attempt]"
    and open_: "Attempt_status attempt = ''in_progress''"
    and owner: "Attempt_user_id attempt = user_id cur"
    and store: "Answer_constraints db"
  shows "(index < 0 \<longrightarrow>
            answer_update answer_id index cur (fresh db) = (Inl negative_index_error, fresh db))
       \<and> (0 \<le> index \<and> index \<le> 2147483647 \<longrightarrow>
            run_request (answer_update answer_id index cur) db
              = (Inr (), with_answer_index answer_id index db))
       \<and> (2147483647 < index \<longrightarrow>
            run_request (answer_update answer_id index cur) db = (Inl DBAPIError, db))"
proof -
  have a: "filter (\<lambda>a. Answer_id a = answer_id) (answers (working (fresh db))) = [ans]"
    "filter (\<lambda>a. Attempt_id a = Answer_attempt_id ans) (attempts (working (fresh db))) = [attempt]"
    using ans att by (simp_all add: fresh_def)
  note w = answer_writes_found [OF a]
  have mem: "ans \<in> set (answers db)" using filter_singletonD [OF ans] by simp
  have id: "Answer_id ans = answer_id" using filter_singletonD [OF ans] by simp
  have big: "\<not> Answer_constraints (with_answer_index answer_id index db)" if "2147483647 < index"
  proof
    assume c: "Answer_constraints (with_answer_index answer_id index db)"
    have "ans\<lparr>Answer_answer_index := index\<rparr> \<in> set (answers (with_answer_index answer_id index db))"
      using mem id by (force simp: with_answer_index_def)
    with c have "int4 index" by (auto simp: Answer_constraints_def)
    with that show False by (simp add: int4_def)
  qed
  show ?thesis
    using open_ owner store big Answer_constraints_with_answer_index [of db index answer_id]
    by (auto simp: w store_answer_index run_request_fresh int4_def fresh_sel)
qed

text \<open>On the created attempt: index -3 is refused, index 2 is stored, index 2^32 is refused by the store.\<close>

theorem answer_update_index_range_witness:
  "answer_update 1 (- 3) \<lparr>user_id = 20, permissions = {}\<rparr> (fresh created_example)
     = (Inl negative_index_error, fresh created_example)
   \<and> run_request (answer_update 1 2 \<lparr>user_id = 20, permissions = {}\<rparr>) created_example
     = (Inr (), answered_example)
   \<and> run_request (answer_update 1 4294967296 \<lparr>user_id = 20, permissions = {}\<rparr>) created_example
     = (Inl DBAPIError, created_example)"
proof -
  note inst = answer_update_index_range [of 1 created_example
      "\<lparr>Answer_id = 1, Answer_attempt_id = 1, Answer_question_id = 1,
        Answer_question_version = 1, Answer_answer_index = - 1\<rparr>"
      "\<lparr>Attempt_id = 1, Attempt_test_id = 1, Attempt_user_id = 20, Attempt_status = ''in_progress''\<rparr>"
      "\<lparr>user_id = 20, permissions = {}\<rparr>"]
  have pre: "filter (\<lambda>a. Answer_id a = 1) (answers created_example)
        = [\<lparr>Answer_id = 1, Answer_attempt_id = 1, Answer_question_id = 1,
            Answer_question_version = 1, Answer_answer_index = - 1\<rparr>]"
    "filter (\<lambda>a. Attempt_id a = 1) (attempts created_example)
        = [\<lparr>Attempt_id = 1, Attempt_test_id = 1, Attempt_user_id = 20, Attempt_status = ''in_progress''\<rparr>]"
    "Answer_constraints created_example"
    by (simp_all add: created_example_def composition_example_def grading_example_def
        Answer_constraints_def int4_def qv_key_def)
  from inst [of "- 3"] inst [of 2] inst [of 4294967296] pre
  show ?thesis by (simp add: answered_example_def)
qed

text \<open>
  C6 as stated fails: answer 1 of the created example belongs to the in_progress
  attempt 1 of user 20 and pins version 1 of question 1, which has three options, and
  \<^verbatim>\<open>answer_update\<close> with index 7 succeeds and stores 7.
\<close>

theorem answer_update_accepts_index_beyond_options:
  "run_request (answer_update 1 7 \<lparr>user_id = 20, permissions = {}\<rparr>) created_example
     = (Inr (), with_answer_index 1 7 created_example)
   \<and> map (\<lambda>a. (Answer_attempt_id a, Answer_question_id a, Answer_question_version a))
         (filter (\<lambda>a. Answer_id a = 1) (answers created_example)) = [(1, 1, 1)]
   \<and> map (\<lambda>t. (Attempt_user_id t, Attempt_status t))
         (filter (\<lambda>t. Attempt_id t = 1) (attempts created_example)) = [(20, ''in_progress'')]
   \<and> map (\<lambda>v. length (QuestionVersion_options v))
         (filter (\<lambda>v. qv_key v = (1, 1)) (question_versions created_example)) = [3]"
  by (simp add: run_request_def answer_update_def andthen_def scalar_one_or_none_def
      get_attempt_or_404_def ok_def set_answer_index_def statement_def commit_def
      Answer_constraints_def int4_def qv_key_def with_answer_index_def
      created_example_def composition_example_def grading_example_def)

subsection \<open>A new question version and the grade\<close>

lemma eval_options: "filter (\<lambda>p. p \<noteq> []) (map py_strip (py_split CHR '','' ''p,q'')) = [''p'', ''q'']"
  by (simp add: py_split_def py_strip_def py_isspace_def)

lemma eval_revise:
  "run_request (question_update 1 ''t2'' ''b2'' ''p,q'' 0 \<lparr>user_id = 10, permissions = {}\<rparr>) grading_example
     = (Inr (1, 2), revised_example)"
  by (simp add: run_request_def question_update_def andthen_def scalar_one_or_none_def eval_options
      query_def max_version_def add_QuestionVersion_def statement_def commit_def ok_def
      QuestionVersion_constraints_def int4_def qv_key_def
      grading_example_def revised_example_def)

lemma question_update_Inr:
  assumes "question_update qid title body optionsCsv correctIndex cur (fresh db) = (Inr v, s')"
  shows "\<exists>row. s' = fresh (db\<lparr>question_versions := question_versions db @ [row]\<rparr>)
           \<and> QuestionVersion_question_id row = qid
           \<and> QuestionVersion_version row = (case max_version qid db of None \<Rightarrow> 0 | Some m \<Rightarrow> m) + 1
           \<and> v = (qid, QuestionVersion_version row)"
  using assms
  by (auto simp: question_update_def andthen_def scalar_one_or_none_def http_error_def raise_def
      query_def ok_def commit_def add_QuestionVersion_def statement_def Let_def fresh_def
      split: option.splits if_splits list.splits)

lemma test_user_grade_frame:
  assumes "tests db' = tests db" "courses db' = courses db" "attempts db' = attempts db"
    and "\<And>i. count_answers i db' = count_answers i db"
    and "\<And>i. count_correct i db' = count_correct i db"
  shows "fst (run_request (test_user_grade t u c) db') = fst (run_request (test_user_grade t u c) db)"
  using assms
  by (auto simp: run_request_def test_user_grade_def get_test_course_def first_def andthen_def
      ensure_teacher_or_perm_def scalar_one_or_none_def query_def ok_def http_error_def raise_def
      split: list.splits prod.splits sum.splits option.splits)

lemma find_append_hit:
  "\<exists>x \<in> set xs. P x \<Longrightarrow> find P (xs @ ys) = find P xs"
  by (induction xs) auto

text \<open>
  C1. A successful \<^verbatim>\<open>question_update\<close> appends one version of the question, numbered above
  every version the question had, and touches no other table. Every answer pinned a
  version that existed before (the foreign key of \<^verbatim>\<open>answers\<close> into \<^verbatim>\<open>question_versions\<close>),
  so each answer's pinned correct_index is the same before and after, and
  \<^verbatim>\<open>test_user_grade\<close> returns for every test, user and caller the same result after the
  update as before it: the same correct count, total and grade_percent.
\<close>

theorem grade_unchanged_by_question_update:
  assumes upd: "run_request (question_update qid title body optionsCsv correctIndex editor) db = (Inr v, db')"
    and fk: "\<forall>a \<in> set (answers db).
               (Answer_question_id a, Answer_question_version a) \<in> qv_key ` set (question_versions db)"
  shows "fst (run_request (test_user_grade test_id uid cur) db')
           = fst (run_request (test_user_grade test_id uid cur) db)
       \<and> (\<forall>a \<in> set (answers db). pinned_correct_index db' a = pinned_correct_index db a)
       \<and> (\<exists>row. question_versions db' = question_versions db @ [row] \<and> qv_key row = v \<and> fst v = qid
              \<and> (\<forall>old \<in> set (question_versions db).
                    QuestionVersion_question_id old = qid \<longrightarrow> QuestionVersion_version old < snd v))
       \<and> answers db' = answers db \<and> attempts db' = attempts db
       \<and> attempt_questions db' = attempt_questions db"
proof -
  obtain s' where s': "question_update qid title body optionsCsv correctIndex editor (fresh db) = (Inr v, s')"
    and c: "db' = committed s'"
    using upd by (auto simp: run_request_fresh split: prod.splits)
  from question_update_Inr [OF s'] obtain row where
    st: "s' = fresh (db\<lparr>question_versions := question_versions db @ [row]\<rparr>)"
    and rq: "QuestionVersion_question_id row = qid"
    and rv: "QuestionVersion_version row = (case max_version qid db of None \<Rightarrow> 0 | Some m \<Rightarrow> m) + 1"
    and v: "v = (qid, QuestionVersion_version row)"
    by blast
  have db': "db' = db\<lparr>question_versions := question_versions db @ [row]\<rparr>"
    by (simp add: c st fresh_def)
  have newer: "QuestionVersion_version old < QuestionVersion_version row"
    if "old \<in> set (question_versions db)" "QuestionVersion_question_id old = qid" for old
  proof (cases "max_version qid db")
    case None
    with that show ?thesis by (auto simp: max_version_def sql_max_None filter_empty_conv)
  next
    case (Some m)
    have "QuestionVersion_version old \<in> set (map QuestionVersion_version
             (filter (\<lambda>v. QuestionVersion_question_id v = qid) (question_versions db)))"
      using that by auto
    with Some have "QuestionVersion_version old \<le> m"
      unfolding max_version_def by (rule sql_max_ge)
    with Some rv show ?thesis by simp
  qed
  have miss: "qv_key row \<noteq> (Answer_question_id a, Answer_question_version a)"
    if "a \<in> set (answers db)" for a
  proof
    assume eq: "qv_key row = (Answer_question_id a, Answer_question_version a)"
    from fk that obtain old where old: "old \<in> set (question_versions db)"
      "qv_key old = (Answer_question_id a, Answer_question_version a)"
      by force
    with eq rq have "QuestionVersion_question_id old = qid"
      "QuestionVersion_version old = QuestionVersion_version row"
      by (simp_all add: qv_key_def)
    with newer [OF old(1)] show False by simp
  qed
  have answers_same: "count_answers i db' = count_answers i db" for i
    by (simp add: count_answers_def db')
  have correct_same: "count_correct i db' = count_correct i db" for i
  proof -
    have "length (filter (\<lambda>v. (QuestionVersion_question_id v = Answer_question_id a
               \<and> QuestionVersion_version v = Answer_question_version a)
            \<and> Answer_attempt_id a = i \<and> Answer_answer_index a \<noteq> - 1
            \<and> Answer_answer_index a = QuestionVersion_correct_index v) (question_versions db @ [row]))
        = length (filter (\<lambda>v. (QuestionVersion_question_id v = Answer_question_id a
               \<and> QuestionVersion_version v = Answer_question_version a)
            \<and> Answer_attempt_id a = i \<and> Answer_answer_index a \<noteq> - 1
            \<and> Answer_answer_index a = QuestionVersion_correct_index v) (question_versions db))"
      if "a \<in> set (answers db)" for a
      using miss [OF that] by (auto simp: qv_key_def)
    then show ?thesis
      by (simp add: count_correct_def length_filter_product db' cong: map_cong)
  qed
  have grade: "fst (run_request (test_user_grade test_id uid cur) db')
           = fst (run_request (test_user_grade test_id uid cur) db)"
    by (rule test_user_grade_frame) (simp_all add: answers_same correct_same, simp_all add: db')
  have pinned: "pinned_correct_index db' a = pinned_correct_index db a" if "a \<in> set (answers db)" for a
  proof -
    from fk that have "\<exists>x \<in> set (question_versions db).
        qv_key x = (Answer_question_id a, Answer_question_version a)"
      by force
    then show ?thesis
      by (simp add: pinned_correct_index_def db' find_append_hit)
  qed
  from grade pinned newer rq v show ?thesis
    by (auto simp: db' qv_key_def)
qed

text \<open>
  Version 2 of question 1 moves the correct option from 1 to 0; attempt 7 pinned
  version 1 and keeps correct = 2, total = 4, grade_percent = 50.
\<close>

theorem grade_unchanged_by_question_update_witness:
  "run_request (question_update 1 ''t2'' ''b2'' ''p,q'' 0 \<lparr>user_id = 10, permissions = {}\<rparr>) grading_example
     = (Inr (1, 2), revised_example)
   \<and> fst (run_request (test_user_grade 1 20 \<lparr>user_id = 10, permissions = {}\<rparr>) revised_example)
     = Inr \<lparr>grade_test_id = 1, grade_user_id = 20, grade_attempt_id = 7,
            grade_correct = 2, grade_total = 4, grade_percent = 50\<rparr>"
proof -
  have fk: "\<forall>a \<in> set (answers grading_example).
               (Answer_question_id a, Answer_question_version a) \<in> qv_key ` set (question_versions grading_example)"
    by (simp add: grading_example_def qv_key_def)
  have before: "fst (run_request (test_user_grade 1 20 \<lparr>user_id = 10, permissions = {}\<rparr>) grading_example)
     = Inr \<lparr>grade_test_id = 1, grade_user_id = 20, grade_attempt_id = 7,
            grade_correct = 2, grade_total = 4, grade_percent = 50\<rparr>"
    by (simp add: run_request_def test_user_grade_def get_test_course_def first_def andthen_def
      ensure_teacher_or_perm_def scalar_one_or_none_def query_def ok_def count_answers_def
      count_correct_def round_half_even_def grading_example_def)
  from grade_unchanged_by_question_update [OF eval_revise fk, of 1 20 "\<lparr>user_id = 10, permissions = {}\<rparr>"]
    before eval_revise
  show ?thesis by simp
qed

subsection \<open>Reordering the questions of a test\<close>

lemma eval_csv:
  "parse_csv_ids ''2,1,3,4'' s = (Inr [2, 1, 3, 4], s)"
  "parse_csv_ids ''1,2,3,4'' s = (Inr [1, 2, 3, 4], s)"
  "parse_csv_ids ''1, 2 ,3'' s = (Inr [1, 2, 3], s)"
  "parse_csv_ids ''1,x'' s = (Inl (HTTPException 400 ''Bad Request'' (Some (''message'', ''Invalid CSV of ids''))), s)"
  by (simp_all add: parse_csv_ids_def py_split_def py_strip_def py_isspace_def py_int_def
      py_unsigned_def is_digit_def digit_val_def ok_def http_error_def raise_def)

text \<open>
  A list that parses and is not a rearrangement of the test's question ids is refused
  with the validation error and the session is returned as it was opened.
\<close>

lemma test_question_order_mismatch:
  assumes test: "filter (\<lambda>t. Test_id t = test_id \<and> \<not> Test_is_deleted t) (tests db) = [test]"
    and course: "filter (\<lambda>c. Course_id c = Test_course_id test \<and> \<not> Course_is_deleted c) (courses db) = [course]"
    and none: "\<not> (\<exists>a \<in> set (attempts db). Attempt_test_id a = test_id)"
    and teacher: "Course_teacher_id course = user_id cur"
    and csv: "parse_csv_ids questionIdsCsv (fresh db) = (Inr new_order, fresh db)"
    and differ: "sort (map TestQuestion_question_id
                   (filter (\<lambda>r. TestQuestion_test_id r = test_id) (test_questions db))) \<noteq> sort new_order"
  shows "test_question_order test_id questionIdsCsv cur (fresh db) = (Inl order_mismatch_error, fresh db)"
proof -
  have t: "filter (\<lambda>t. Test_id t = test_id \<and> \<not> Test_is_deleted t) (tests (working (fresh db))) = [test]"
    using test by (simp add: fresh_sel)
  have c: "filter (\<lambda>c. Course_id c = Test_course_id test \<and> \<not> Course_is_deleted c) (courses (working (fresh db))) = [course]"
    using course by (simp add: fresh_sel)
  have id: "Test_id test = test_id" using filter_singletonD [OF test] by simp
  have e: "ensure_can_edit_test cur test (fresh db) = (Inr (), fresh db)"
    using ensure_can_edit_test_no_attempts [OF c, of cur] none teacher id by (simp add: fresh_sel)
  show ?thesis
    using differ teacher
    by (simp add: test_question_order_def andthen_def get_test_or_404_found [OF t] e
        get_course_or_404_found [OF c] csv query_def fresh_sel http_error_def raise_def
        order_mismatch_error_def)
qed

text \<open>
  C9. The first half of the claim holds (a list that omits question 4 is refused with
  the validation error and nothing changes), the second does not: the test of the
  composition example has questions 1, 2, 3, 4 at positions 0, 1, 2, 3, and the
  course's teacher asks for the order 2, 1, 3, 4. The first UPDATE of the loop moves
  question 2 to position 0 while question 1 still holds it, the store refuses the
  statement (\<^verbatim>\<open>uq_test_questions_position\<close>), the exception is not caught and no position
  changes. Restating the current order succeeds.
\<close>

theorem test_question_order_swap_refused:
  "run_request (test_question_order 1 ''2,1,3,4'' \<lparr>user_id = 10, permissions = {}\<rparr>) composition_example
     = (Inl DBAPIError, composition_example)
   \<and> run_request (test_question_order 1 ''1, 2 ,3'' \<lparr>user_id = 10, permissions = {}\<rparr>) composition_example
     = (Inl order_mismatch_error, composition_example)
   \<and> run_request (test_question_order 1 ''1,2,3,4'' \<lparr>user_id = 10, permissions = {}\<rparr>) composition_example
     = (Inr (), composition_example)"
  by (simp add: run_request_def test_question_order_def get_test_or_404_def get_course_or_404_def
      ensure_can_edit_test_def count_attempts_def andthen_def scalar_one_or_none_def query_def
      ok_def http_error_def raise_def eval_csv enumerate_from0_def update_position_def
      statement_def commit_def TestQuestion_constraints_def int4_def order_mismatch_error_def
      composition_example_def grading_example_def upt_rec)

end
